theory Spec2Isabelle
  imports Complex_Main "HOL-Library.Sublist" "HOL-Library.AList"
begin

section \<open>Python values, exceptions and strings\<close>

text \<open>
  The Stock-Assistant sources are Python. Every \<^verbatim>\<open>raise\<close> of the interpreter that the
  modelled functions can meet is a value of \<open>py_error\<close>; a computation that may raise has
  the type \<open>py_error + 'a\<close>, with \<open>Inl\<close> for the exception. Dictionaries whose values are
  of mixed type are maps from keys to \<open>pyval\<close>.
\<close>

datatype py_error =
  AttributeError | IndexError | KeyError | OverflowError | TypeError | ValueError

datatype pyval = PNone | PStr string | PInt int | PDate int

definition bind :: "'e + 'a \<Rightarrow> ('a \<Rightarrow> 'e + 'b) \<Rightarrow> 'e + 'b" where
  "bind m f = (case m of Inl e \<Rightarrow> Inl e | Inr x \<Rightarrow> f x)"

text \<open>
  Strings are lists of 8-bit characters; the model covers ASCII text. \<open>is_space\<close> is
  \<^verbatim>\<open>str.isspace\<close> on that range (also what \<^verbatim>\<open>\s\<close> matches in a \<^verbatim>\<open>str\<close> pattern).
\<close>

definition is_space :: "char \<Rightarrow> bool" where
  "is_space c = (c \<in> set [CHR 0x09, CHR 0x0A, CHR 0x0B, CHR 0x0C, CHR 0x0D,
                            CHR 0x1C, CHR 0x1D, CHR 0x1E, CHR 0x1F, CHR '' ''])"

definition is_digit :: "char \<Rightarrow> bool" where
  "is_digit c = (c \<in> set ''0123456789'')"

definition upper_chars :: string where
  "upper_chars = ''ABCDEFGHIJKLMNOPQRSTUVWXYZ''"

definition lower_chars :: string where
  "lower_chars = ''abcdefghijklmnopqrstuvwxyz''"

definition is_alpha :: "char \<Rightarrow> bool" where
  "is_alpha c = (c \<in> set upper_chars \<or> c \<in> set lower_chars)"

definition char_upper :: "char \<Rightarrow> char" where
  "char_upper c = (case map_of (zip lower_chars upper_chars) c of Some u \<Rightarrow> u | None \<Rightarrow> c)"

definition char_lower :: "char \<Rightarrow> char" where
  "char_lower c = (case map_of (zip upper_chars lower_chars) c of Some l \<Rightarrow> l | None \<Rightarrow> c)"

definition py_upper :: "string \<Rightarrow> string" where
  "py_upper s = map char_upper s"

definition py_lower :: "string \<Rightarrow> string" where
  "py_lower s = map char_lower s"

definition py_strip :: "string \<Rightarrow> string" where
  "py_strip s = rev (dropWhile is_space (rev (dropWhile is_space s)))"

text \<open>\<^verbatim>\<open>q in s\<close> on two strings: \<open>q\<close> occurs in \<open>s\<close> as a contiguous block.\<close>

fun str_contains :: "string \<Rightarrow> string \<Rightarrow> bool" where
  "str_contains q [] = (q = [])"
| "str_contains q (c # cs) = (prefix q (c # cs) \<or> str_contains q cs)"

text \<open>
  \<^verbatim>\<open>int(s)\<close> on the texts the intent patterns capture: a non-empty run of decimal digits
  is its value, anything else raises ValueError (the other captures are runs of letters
  and blanks, which \<^verbatim>\<open>int\<close> rejects). CPython refuses to convert more than 4300 digits.
\<close>

definition int_max_str_digits :: nat where
  "int_max_str_digits = 4300"

definition digit_value :: "char \<Rightarrow> int" where
  "digit_value c = int (of_char c) - 48"

definition py_int :: "string \<Rightarrow> py_error + int" where
  "py_int s =
     (if s \<noteq> [] \<and> list_all is_digit s \<and> length s \<le> int_max_str_digits
      then Inr (foldl (\<lambda>a c. 10 * a + digit_value c) 0 s)
      else Inl ValueError)"

section \<open>Dates\<close>

text \<open>
  A \<^verbatim>\<open>datetime\<close> is the number of microseconds since \<^verbatim>\<open>datetime.min\<close>
  (0001-01-01 00:00:00); \<^verbatim>\<open>datetime.max\<close> is the last microsecond of day 3652059
  (9999-12-31). A \<^verbatim>\<open>timedelta\<close> is a number of microseconds; its constructor refuses
  more than 999999999 days, and \<^verbatim>\<open>datetime - timedelta\<close> raises OverflowError when the
  result leaves the range of \<^verbatim>\<open>datetime\<close>.
\<close>

type_synonym datetime = int
type_synonym timedelta = int

definition us_per_day :: int where
  "us_per_day = 86400000000"

definition max_ordinal :: int where
  "max_ordinal = 3652059"

definition valid_datetime :: "datetime \<Rightarrow> bool" where
  "valid_datetime t = (0 \<le> t \<and> t < max_ordinal * us_per_day)"

definition timedelta_days :: "int \<Rightarrow> py_error + timedelta" where
  "timedelta_days x = (if \<bar>x\<bar> > 999999999 then Inl OverflowError else Inr (x * us_per_day))"

definition timedelta_weeks :: "int \<Rightarrow> py_error + timedelta" where
  "timedelta_weeks x = timedelta_days (x * 7)"

definition datetime_sub :: "datetime \<Rightarrow> timedelta \<Rightarrow> py_error + datetime" where
  "datetime_sub t d = (if valid_datetime (t - d) then Inr (t - d) else Inl OverflowError)"

text \<open>
  \<^verbatim>\<open>PromptProcessor._calculate_date_range\<close> (prompt_processor.py, lines 185-194).
  \<open>now\<close> is what \<^verbatim>\<open>datetime.now()\<close> returns. A unit that is not a key of
  \<^verbatim>\<open>unit_mapping\<close> raises KeyError.
\<close>

definition unit_mapping :: "(string \<times> (int \<Rightarrow> py_error + timedelta)) list" where
  "unit_mapping =
     [(''day'', \<lambda>x. timedelta_days x),
      (''week'', \<lambda>x. timedelta_weeks x),
      (''month'', \<lambda>x. timedelta_days (x * 30)),
      (''year'', \<lambda>x. timedelta_days (x * 365))]"

definition calculate_date_range :: "datetime \<Rightarrow> int \<Rightarrow> string \<Rightarrow> py_error + datetime" where
  "calculate_date_range now duration unit =
     (let today = now in
      case map_of unit_mapping (py_lower unit) of
        None \<Rightarrow> Inl KeyError
      | Some f \<Rightarrow> bind (f duration) (\<lambda>delta. datetime_sub today delta))"

text \<open>The unit table as the specification words it: the number of days of each unit.\<close>

definition unit_days :: "(string \<times> int) list" where
  "unit_days = [(''day'', 1), (''week'', 7), (''month'', 30), (''year'', 365)]"

section \<open>Candidate search of the intent matcher\<close>

text \<open>
  An instrument of the master data is a dictionary from field names to scalar values.
  \<open>getitem\<close> is \<^verbatim>\<open>d[k]\<close> (KeyError on a missing key) and \<open>get_default\<close> is
  \<^verbatim>\<open>d.get(k, default)\<close>. \<open>py_in q v\<close> is \<^verbatim>\<open>q in v\<close> for a string \<open>q\<close> (TypeError when
  \<open>v\<close> is not a string) and \<open>upper_of v\<close> is \<^verbatim>\<open>v.upper()\<close> (AttributeError when \<open>v\<close>
  is not a string).
\<close>

type_synonym instrument = "string \<rightharpoonup> pyval"

definition getitem :: "(string \<rightharpoonup> pyval) \<Rightarrow> string \<Rightarrow> py_error + pyval" where
  "getitem d k = (case d k of None \<Rightarrow> Inl KeyError | Some v \<Rightarrow> Inr v)"

definition get_default :: "(string \<rightharpoonup> pyval) \<Rightarrow> string \<Rightarrow> pyval \<Rightarrow> pyval" where
  "get_default d k dflt = (case d k of None \<Rightarrow> dflt | Some v \<Rightarrow> v)"

definition py_in :: "string \<Rightarrow> pyval \<Rightarrow> py_error + bool" where
  "py_in q v = (case v of PStr s \<Rightarrow> Inr (str_contains q s) | _ \<Rightarrow> Inl TypeError)"

definition upper_of :: "pyval \<Rightarrow> py_error + string" where
  "upper_of v = (case v of PStr s \<Rightarrow> Inr (py_upper s) | _ \<Rightarrow> Inl AttributeError)"

text \<open>The dictionary appended to \<^verbatim>\<open>matches\<close> (prompt_processor.py, lines 40-46).\<close>

record candidate =
  symbol :: pyval
  name :: pyval
  exchange :: pyval
  instrument_type :: pyval
  token :: pyval

text \<open>
  One round of the loop of \<^verbatim>\<open>find_matching_instruments\<close> (lines 36-46): the test of
  line 38-39, with the short-circuit of \<^verbatim>\<open>or\<close>, then the dictionary of the match.
\<close>

definition match_instrument :: "string \<Rightarrow> instrument \<Rightarrow> py_error + candidate option" where
  "match_instrument query instrument =
     bind (getitem instrument ''tradingsymbol'') (\<lambda>ts.
     bind (py_in query ts) (\<lambda>in_symbol.
     bind (if in_symbol then Inr True
           else bind (upper_of (get_default instrument ''company_name'' (PStr [])))
                  (\<lambda>company. Inr (str_contains query company))) (\<lambda>hit.
     if hit then
       bind (getitem instrument ''exchange'') (\<lambda>ex.
       bind (getitem instrument ''instrument_type'') (\<lambda>ty.
       Inr (Some \<lparr>symbol = ts,
                  name = get_default instrument ''company_name'' ts,
                  exchange = ex,
                  instrument_type = ty,
                  token = get_default instrument ''instrument_token'' PNone\<rparr>)))
     else Inr None)))"

fun match_loop :: "string \<Rightarrow> instrument list \<Rightarrow> candidate list \<Rightarrow> py_error + candidate list" where
  "match_loop query [] matches = Inr matches"
| "match_loop query (instrument # rest) matches =
     (case match_instrument query instrument of
        Inl e \<Rightarrow> Inl e
      | Inr None \<Rightarrow> match_loop query rest matches
      | Inr (Some m) \<Rightarrow> match_loop query rest (matches @ [m]))"

text \<open>
  \<^verbatim>\<open>PromptProcessor.find_matching_instruments\<close> (lines 30-53). The instrument mapper is
  a collaborator handed to the constructor; \<open>get_all_instruments\<close> is what its method of
  that name does, the list it returns or the exception of the call. Every exception of
  the body is caught and the empty list returned.
\<close>

definition find_matching_instruments ::
    "(py_error + instrument list) \<Rightarrow> string \<Rightarrow> candidate list" where
  "find_matching_instruments get_all_instruments query =
     (let query = py_upper (py_strip query) in
      case bind get_all_instruments (\<lambda>instruments. match_loop query instruments []) of
        Inl e \<Rightarrow> []
      | Inr matches \<Rightarrow> matches)"

subsection \<open>The search as the specification words it\<close>

definition symbol_text :: "instrument \<Rightarrow> string option" where
  "symbol_text i = (case i ''tradingsymbol'' of Some (PStr ts) \<Rightarrow> Some ts | _ \<Rightarrow> None)"

definition company_text :: "instrument \<Rightarrow> string option" where
  "company_text i =
     (case i ''company_name'' of None \<Rightarrow> Some [] | Some (PStr n) \<Rightarrow> Some n | _ \<Rightarrow> None)"

text \<open>The trading symbol, or the uppercased company name, contains the query.\<close>

definition contains_query :: "string \<Rightarrow> instrument \<Rightarrow> bool" where
  "contains_query q i =
     ((case symbol_text i of Some ts \<Rightarrow> sublist q ts | None \<Rightarrow> False) \<or>
      (case company_text i of Some n \<Rightarrow> sublist q (py_upper n) | None \<Rightarrow> False))"

text \<open>
  No lookup of the loop fails on the instrument: the trading symbol is a string, the
  company name (when it is looked at) is absent or a string, and a matching instrument
  has an exchange and an instrument type.
\<close>

definition readable :: "string \<Rightarrow> instrument \<Rightarrow> bool" where
  "readable q i =
     (case symbol_text i of
        None \<Rightarrow> False
      | Some ts \<Rightarrow>
          (sublist q ts \<or> company_text i \<noteq> None) \<and>
          (contains_query q i \<longrightarrow> i ''exchange'' \<noteq> None \<and> i ''instrument_type'' \<noteq> None))"

definition candidate_of :: "instrument \<Rightarrow> candidate" where
  "candidate_of i =
     \<lparr>symbol = get_default i ''tradingsymbol'' PNone,
      name = get_default i ''company_name'' (get_default i ''tradingsymbol'' PNone),
      exchange = get_default i ''exchange'' PNone,
      instrument_type = get_default i ''instrument_type'' PNone,
      token = get_default i ''instrument_token'' PNone\<rparr>"

section \<open>Regular expressions of the intent patterns\<close>

text \<open>
  The patterns of \<^verbatim>\<open>PromptProcessor.patterns\<close> use a small part of the syntax of
  Python's \<^verbatim>\<open>re\<close>: literal words compared without case (all patterns start with
  \<^verbatim>\<open>(?i)\<close>), the greedy repetitions \<^verbatim>\<open>\s+\<close>, \<^verbatim>\<open>\d+\<close> and \<^verbatim>\<open>[A-Za-z\s]+\<close>, alternatives,
  greedy options and capturing groups. \<open>regex\<close> is that syntax; a group carries its
  number.
\<close>

datatype cclass = Space | Digit | AlphaSpace

fun in_class :: "cclass \<Rightarrow> char \<Rightarrow> bool" where
  "in_class Space c = is_space c"
| "in_class Digit c = is_digit c"
| "in_class AlphaSpace c = (is_alpha c \<or> is_space c)"

datatype regex =
    Lit string
  | Plus cclass
  | Alt "regex list"
  | Opt regex
  | Group nat regex
  | Seq "regex list"

text \<open>
  A match object is the list of its groups, \<open>None\<close> for a group that took no part in
  the match.
\<close>

type_synonym match = "string option list"

text \<open>
  A reference matcher for this syntax, with the priorities of a backtracking matcher:
  \<open>rmatch r (s, g)\<close> lists the ways \<open>r\<close> matches a prefix of \<open>s\<close>, as the rest of
  the text with the groups, the way \<^verbatim>\<open>re\<close> tries first at the head. \<open>re_search\<close> is
  \<^verbatim>\<open>re.search\<close>: the first way at the leftmost position that has one.
\<close>

fun rmatch :: "regex \<Rightarrow> string \<times> match \<Rightarrow> (string \<times> match) list" where
  "rmatch (Lit l) (s, g) =
     (if py_lower (take (length l) s) = py_lower l then [(drop (length l) s, g)] else [])"
| "rmatch (Plus c) (s, g) =
     map (\<lambda>k. (drop k s, g)) (rev [1 ..< Suc (length (takeWhile (in_class c) s))])"
| "rmatch (Alt rs) st = concat (map (\<lambda>r. rmatch r st) rs)"
| "rmatch (Opt r) st = rmatch r st @ [st]"
| "rmatch (Group i r) (s, g) =
     map (\<lambda>(s', g'). (s', g'[i - 1 := Some (take (length s - length s') s)])) (rmatch r (s, g))"
| "rmatch (Seq []) st = [st]"
| "rmatch (Seq (r # rs)) st = concat (map (rmatch (Seq rs)) (rmatch r st))"

fun ngroups :: "regex \<Rightarrow> nat" where
  "ngroups (Lit l) = 0"
| "ngroups (Plus c) = 0"
| "ngroups (Alt rs) = sum_list (map ngroups rs)"
| "ngroups (Opt r) = ngroups r"
| "ngroups (Group i r) = Suc (ngroups r)"
| "ngroups (Seq rs) = sum_list (map ngroups rs)"

fun search_from :: "regex \<Rightarrow> match \<Rightarrow> string \<Rightarrow> match option" where
  "search_from r g0 s =
     (case rmatch r (s, g0) of
        (s', g) # rest \<Rightarrow> Some g
      | [] \<Rightarrow> (case s of [] \<Rightarrow> None | c # cs \<Rightarrow> search_from r g0 cs))"

definition re_search :: "regex \<Rightarrow> string \<Rightarrow> match option" where
  "re_search r s = search_from r (replicate (ngroups r) None) s"

text \<open>
  Shorthands: \<open>ws\<close> is \<^verbatim>\<open>\s+\<close>, \<open>words [a, b]\<close> is \<^verbatim>\<open>(?:a|b)\<close>, \<open>opt_word w\<close> is
  \<^verbatim>\<open>(?:w\s+)?\<close>, \<open>digits\<close> is \<^verbatim>\<open>\d+\<close> and \<open>name_text\<close> is \<^verbatim>\<open>[A-Za-z\s]+\<close>.
\<close>

definition ws :: regex where
  "ws = Plus Space"

definition words :: "string list \<Rightarrow> regex" where
  "words xs = Alt (map Lit xs)"

definition opt_word :: "string \<Rightarrow> regex" where
  "opt_word w = Opt (Seq [Lit w, ws])"

definition digits :: regex where
  "digits = Plus Digit"

definition name_text :: regex where
  "name_text = Plus AlphaSpace"

text \<open>
  \<^verbatim>\<open>PromptProcessor.patterns\<close> (lines 13-28), in the order of the dictionary, which is
  the order the loop of \<^verbatim>\<open>process_prompt\<close> visits.
\<close>

definition patterns :: "(string \<times> regex) list" where
  "patterns =
    [(''historical'',
        Seq [words [''get'', ''show'', ''display''], ws, Group 1 digits, ws,
             Group 2 (words [''year'', ''month'', ''day'', ''week'']), Opt (Lit ''s''), ws,
             words [''data'', ''history''], ws, opt_word ''of'', Group 3 name_text]),
     (''top_performers'',
        Seq [words [''show'', ''get'', ''display''], ws, Lit ''top'', ws, Group 1 digits, ws,
             opt_word ''performing'', Lit ''stocks'', ws, words [''in'', ''for'', ''over''], ws,
             opt_word ''the'', opt_word ''last'', Group 2 digits, ws,
             Group 3 (words [''day'', ''month'', ''week'']), Opt (Lit ''s'')]),
     (''trend_analysis'',
        Seq [words [''show'', ''get'', ''analyze'', ''give''], ws, opt_word ''me'', opt_word ''a'',
             Lit ''trend'', ws, Lit ''analysis'', ws, opt_word ''of'', Opt (Group 1 name_text)]),
     (''stock_details'',
        Seq [words [''get'', ''show'', ''display''], ws, opt_word ''me'', opt_word ''the'',
             opt_word ''stock'', words [''details'', ''data'', ''info''], ws, opt_word ''of'',
             Group 1 name_text]),
     (''price_movement'',
        Seq [words [''analyze'', ''show''], ws, opt_word ''the'', Lit ''price'', ws,
             Lit ''movement'', ws, opt_word ''of'', Group 1 name_text, ws,
             words [''in'', ''for'', ''over''], ws, opt_word ''the'', opt_word ''last'',
             Group 2 digits, ws, Group 3 (words [''day'', ''month'', ''week'']), Opt (Lit ''s'')]),
     (''market_sentiment'',
        Seq [words [''what'', ''how''], ws, Lit ''is'', ws, opt_word ''the'', Lit ''market'', ws,
             Lit ''sentiment'', ws, opt_word ''for'', Opt (Group 1 name_text)]),
     (''volume_analysis'',
        Seq [words [''analyze'', ''show''], ws, opt_word ''the'', Lit ''volume'', ws,
             words [''analysis'', ''data''], ws, opt_word ''of'', Group 1 name_text]),
     (''sector_performance'',
        Seq [words [''how'', ''what''], ws, Lit ''is'', ws, opt_word ''the'', Group 1 name_text, ws,
             Lit ''sector'', ws, words [''performance'', ''doing'']]),
     (''comparison'',
        Seq [words [''compare'', ''show''], ws, opt_word ''the'', opt_word ''performance'',
             opt_word ''of'', Group 1 name_text, ws, words [''with'', ''and'', ''vs''], ws,
             Group 2 name_text]),
     (''support_resistance'',
        Seq [words [''show'', ''get'', ''find''], ws, opt_word ''the'', Lit ''support'', ws,
             Lit ''and'', ws, Lit ''resistance'', ws, opt_word ''levels'', opt_word ''for'',
             Group 1 name_text]),
     (''moving_averages'',
        Seq [words [''show'', ''get'', ''calculate''], ws, opt_word ''the'',
             Opt (Seq [Group 1 digits, ws, Lit ''day'', ws]), Lit ''moving'', ws,
             Lit ''average'', ws, opt_word ''for'', Group 2 name_text]),
     (''rsi_analysis'',
        Seq [words [''show'', ''get'', ''calculate''], ws, opt_word ''the'', Lit ''rsi'', ws,
             opt_word ''analysis'', opt_word ''for'', Group 1 name_text]),
     (''dividend_history'',
        Seq [words [''show'', ''get''], ws, opt_word ''the'', Lit ''dividend'', ws,
             Lit ''history'', ws, opt_word ''of'', Group 1 name_text]),
     (''news_sentiment'',
        Seq [words [''show'', ''get''], ws, opt_word ''the'', Lit ''news'', ws,
             Lit ''sentiment'', ws, opt_word ''for'', Group 1 name_text])]"

section \<open>The intent matcher\<close>

text \<open>
  Reading a match object: \<open>group m i\<close> is \<^verbatim>\<open>match.group(i)\<close> for \<open>i \<ge> 1\<close> (IndexError
  when the pattern has no such group) and \<open>groups m\<close> is \<^verbatim>\<open>match.groups()\<close>; unpacking
  a tuple into two or three names raises ValueError when the lengths differ.
\<close>

definition group_value :: "string option \<Rightarrow> pyval" where
  "group_value g = (case g of None \<Rightarrow> PNone | Some s \<Rightarrow> PStr s)"

definition group :: "match \<Rightarrow> nat \<Rightarrow> py_error + pyval" where
  "group m i = (if 1 \<le> i \<and> i \<le> length m then Inr (group_value (m ! (i - 1))) else Inl IndexError)"

definition groups :: "match \<Rightarrow> pyval list" where
  "groups m = map group_value m"

definition unpack2 :: "pyval list \<Rightarrow> py_error + pyval \<times> pyval" where
  "unpack2 vs = (case vs of [a, b] \<Rightarrow> Inr (a, b) | _ \<Rightarrow> Inl ValueError)"

definition unpack3 :: "pyval list \<Rightarrow> py_error + pyval \<times> pyval \<times> pyval" where
  "unpack3 vs = (case vs of [a, b, c] \<Rightarrow> Inr (a, b, c) | _ \<Rightarrow> Inl ValueError)"

text \<open>
  Truth of a value, \<^verbatim>\<open>v.strip()\<close>, \<^verbatim>\<open>int(v)\<close>, and \<^verbatim>\<open>_calculate_date_range\<close> called
  with a value for the unit (\<^verbatim>\<open>unit.lower()\<close> raises AttributeError unless it is a
  string).
\<close>

definition truthy :: "pyval \<Rightarrow> bool" where
  "truthy v = (case v of PNone \<Rightarrow> False | PStr s \<Rightarrow> s \<noteq> [] | PInt n \<Rightarrow> n \<noteq> 0 | PDate t \<Rightarrow> True)"

definition strip_of :: "pyval \<Rightarrow> py_error + pyval" where
  "strip_of v = (case v of PStr s \<Rightarrow> Inr (PStr (py_strip s)) | _ \<Rightarrow> Inl AttributeError)"

definition int_of :: "pyval \<Rightarrow> py_error + int" where
  "int_of v = (case v of PStr s \<Rightarrow> py_int s | PInt n \<Rightarrow> Inr n | _ \<Rightarrow> Inl TypeError)"

definition calculate_date_range_of :: "datetime \<Rightarrow> int \<Rightarrow> pyval \<Rightarrow> py_error + datetime" where
  "calculate_date_range_of now duration unit =
     (case unit of PStr u \<Rightarrow> calculate_date_range now duration u | _ \<Rightarrow> Inl AttributeError)"

text \<open>
  \<^verbatim>\<open>find_matching_instruments\<close> called with a value: for anything but a string the
  first line of its body raises AttributeError, which it catches.
\<close>

definition find_matching_instruments_of ::
    "(py_error + instrument list) \<Rightarrow> pyval \<Rightarrow> candidate list" where
  "find_matching_instruments_of get_all_instruments v =
     (case v of PStr s \<Rightarrow> find_matching_instruments get_all_instruments s | _ \<Rightarrow> [])"

text \<open>
  The dictionary \<^verbatim>\<open>result\<close> of \<^verbatim>\<open>process_prompt\<close> (lines 58-64). Its \<^verbatim>\<open>matches\<close> entry is a
  list of candidates, or for a comparison a dictionary of two lists. Its \<^verbatim>\<open>parameters\<close>
  entry is a dictionary in the order of insertion, a list of keys with their values:
  \<open>map_of\<close> reads it and \<open>AList.update\<close> is the assignment \<^verbatim>\<open>d[k] = v\<close>.
\<close>

datatype candidates = Candidates "candidate list" | CandidatePair "candidate list" "candidate list"

record parsed_request =
  action :: "string option"
  parameters :: "(string \<times> pyval) list"
  matches :: candidates
  query_type :: "string option"
  original_prompt :: string

text \<open>
  What \<^verbatim>\<open>process_prompt\<close> returns: the dictionary \<^verbatim>\<open>result\<close>, or from the handler of
  line 149 the dictionary \<^verbatim>\<open>{'action': None, 'error': str(e), 'original_prompt': prompt}\<close>,
  which has no \<^verbatim>\<open>query_type\<close>, \<^verbatim>\<open>parameters\<close> or \<^verbatim>\<open>matches\<close>.
\<close>

datatype prompt_result = Parsed parsed_request | PromptError py_error string

text \<open>\<^verbatim>\<open>result.get('query_type')\<close> on what is returned.\<close>

definition returned_query_type :: "prompt_result \<Rightarrow> string option" where
  "returned_query_type res = (case res of Parsed r \<Rightarrow> query_type r | PromptError e p \<Rightarrow> None)"

text \<open>\<^verbatim>\<open>PromptProcessor._extract_basic_parameters\<close> (lines 157-183).\<close>

definition extract_basic_parameters ::
    "datetime \<Rightarrow> match \<Rightarrow> string \<Rightarrow> py_error + (string \<times> pyval) list" where
  "extract_basic_parameters now m qt =
     (if qt \<in> set [''historical'', ''price_movement''] then
        bind (unpack3 (groups m)) (\<lambda>(duration, unit, sym).
        bind (int_of duration) (\<lambda>d.
        bind (strip_of sym) (\<lambda>stripped.
        bind (calculate_date_range_of now d unit) (\<lambda>from_date.
        Inr [(''duration'', PInt d), (''unit'', unit), (''symbol'', stripped),
             (''from_date'', PDate from_date)]))))
      else if qt = ''top_performers'' then
        bind (unpack3 (groups m)) (\<lambda>(count, duration, unit).
        bind (int_of count) (\<lambda>c.
        bind (int_of duration) (\<lambda>d.
        bind (calculate_date_range_of now d unit) (\<lambda>from_date.
        Inr [(''count'', PInt c), (''duration'', PInt d), (''unit'', unit),
             (''from_date'', PDate from_date)]))))
      else
        bind (group m 1) (\<lambda>sym.
        bind (if truthy sym then strip_of sym else Inr PNone) (\<lambda>stripped.
        bind (calculate_date_range now 30 ''day'') (\<lambda>from_date.
        Inr [(''symbol'', stripped), (''duration'', PInt 30), (''unit'', PStr ''day''),
             (''from_date'', PDate from_date)]))))"

text \<open>
  The parameter extraction of \<^verbatim>\<open>process_prompt\<close> for the rule that matched
  (lines 74-132), on the dictionary \<^verbatim>\<open>result\<close>.
\<close>

definition extract_parameters ::
    "(py_error + instrument list) \<Rightarrow> datetime \<Rightarrow> string \<Rightarrow> match \<Rightarrow> parsed_request
       \<Rightarrow> py_error + parsed_request" where
  "extract_parameters get_all_instruments now qt m result =
     (if qt = ''moving_averages'' then
        bind (group m 1) (\<lambda>g1.
        let period = (if truthy g1 then g1 else PStr ''50'') in
        bind (group m 2) (\<lambda>sym.
        bind (strip_of sym) (\<lambda>stripped.
        bind (int_of period) (\<lambda>p.
        bind (calculate_date_range now p ''day'') (\<lambda>from_date.
        Inr (result\<lparr>parameters :=
               [(''symbol'', stripped), (''period'', PInt p),
                (''from_date'', PDate from_date)]\<rparr>))))))
      else if qt = ''comparison'' then
        bind (unpack2 (groups m)) (\<lambda>(symbol1, symbol2).
        bind (strip_of symbol1) (\<lambda>stripped1.
        bind (strip_of symbol2) (\<lambda>stripped2.
        Inr (result\<lparr>parameters :=
               [(''symbol1'', stripped1), (''symbol2'', stripped2),
                (''duration'', PInt 30), (''unit'', PStr ''day'')],
             matches := CandidatePair
               (find_matching_instruments_of get_all_instruments symbol1)
               (find_matching_instruments_of get_all_instruments symbol2)\<rparr>))))
      else if qt = ''sector_performance'' then
        bind (group m 1) (\<lambda>sector.
        bind (strip_of sector) (\<lambda>stripped.
        Inr (result\<lparr>parameters :=
               [(''sector'', stripped), (''duration'', PInt 30), (''unit'', PStr ''day'')]\<rparr>)))
      else if qt = ''support_resistance'' then
        bind (group m 1) (\<lambda>sym.
        bind (strip_of sym) (\<lambda>stripped.
        Inr (result\<lparr>parameters :=
               [(''symbol'', stripped), (''duration'', PInt 90), (''unit'', PStr ''day'')]\<rparr>)))
      else if qt = ''rsi_analysis'' then
        bind (group m 1) (\<lambda>sym.
        bind (strip_of sym) (\<lambda>stripped.
        Inr (result\<lparr>parameters :=
               [(''symbol'', stripped), (''period'', PInt 14), (''duration'', PInt 30),
                (''unit'', PStr ''day'')]\<rparr>)))
      else if qt = ''volume_analysis'' then
        bind (group m 1) (\<lambda>sym.
        bind (strip_of sym) (\<lambda>stripped.
        Inr (result\<lparr>parameters :=
               [(''symbol'', stripped), (''duration'', PInt 30), (''unit'', PStr ''day'')]\<rparr>)))
      else
        bind (extract_basic_parameters now m qt) (\<lambda>ps. Inr (result\<lparr>parameters := ps\<rparr>)))"

text \<open>
  The resolution of the symbol (lines 134-142): a search when the symbol parameter is
  true (a non-empty string), and the rewriting when it has exactly one candidate.
\<close>

definition resolve_symbol :: "(py_error + instrument list) \<Rightarrow> parsed_request \<Rightarrow> parsed_request" where
  "resolve_symbol get_all_instruments result =
     (if truthy (get_default (map_of (parameters result)) ''symbol'' PNone) then
        let found = find_matching_instruments_of get_all_instruments
                      (get_default (map_of (parameters result)) ''symbol'' PNone);
            result = result\<lparr>matches := Candidates found\<rparr>
        in (case found of
              [m] \<Rightarrow> result\<lparr>parameters :=
                       AList.update ''instrument_token'' (token m)
                         (AList.update ''symbol'' (symbol m) (parameters result))\<rparr>
            | _ \<Rightarrow> result)
      else result)"

text \<open>
  The loop of \<^verbatim>\<open>process_prompt\<close> over the patterns (lines 67-144), with its
  \<^verbatim>\<open>break\<close>, and \<^verbatim>\<open>process_prompt\<close> itself (lines 55-155). \<open>search\<close> is \<^verbatim>\<open>re.search\<close>,
  \<open>get_all_instruments\<close> the directory as in \<open>find_matching_instruments\<close>, \<open>now\<close> the
  clock.
\<close>

fun prompt_loop ::
    "(regex \<Rightarrow> string \<Rightarrow> match option) \<Rightarrow> (py_error + instrument list) \<Rightarrow> datetime \<Rightarrow> string
       \<Rightarrow> (string \<times> regex) list \<Rightarrow> parsed_request \<Rightarrow> py_error + parsed_request" where
  "prompt_loop search get_all_instruments now prompt [] result = Inr result"
| "prompt_loop search get_all_instruments now prompt ((qt, pattern) # rest) result =
     (case search pattern prompt of
        None \<Rightarrow> prompt_loop search get_all_instruments now prompt rest result
      | Some m \<Rightarrow>
          bind (extract_parameters get_all_instruments now qt m
                  (result\<lparr>query_type := Some qt, action := Some (''get_'' @ qt)\<rparr>))
            (\<lambda>result. Inr (resolve_symbol get_all_instruments result)))"

definition initial_result :: "string \<Rightarrow> parsed_request" where
  "initial_result prompt =
     \<lparr>action = None, parameters = [], matches = Candidates [], query_type = None,
      original_prompt = prompt\<rparr>"

definition process_prompt ::
    "(regex \<Rightarrow> string \<Rightarrow> match option) \<Rightarrow> (py_error + instrument list) \<Rightarrow> datetime \<Rightarrow> string
       \<Rightarrow> prompt_result" where
  "process_prompt search get_all_instruments now prompt =
     (case prompt_loop search get_all_instruments now prompt patterns (initial_result prompt) of
        Inl e \<Rightarrow> PromptError e prompt
      | Inr result \<Rightarrow> Parsed result)"

text \<open>The rule the loop commits to: the first of the list whose pattern matches.\<close>

fun first_match ::
    "(regex \<Rightarrow> string \<Rightarrow> match option) \<Rightarrow> string \<Rightarrow> (string \<times> regex) list
       \<Rightarrow> (string \<times> match) option" where
  "first_match search prompt [] = None"
| "first_match search prompt ((qt, pattern) # rest) =
     (case search pattern prompt of
        Some m \<Rightarrow> Some (qt, m)
      | None \<Rightarrow> first_match search prompt rest)"

text \<open>
  A directory for examples, with fields named as \<^verbatim>\<open>find_matching_instruments\<close> reads
  them, and a reading of the clock: 2026-11-03 12:00:00.
\<close>

definition example_directory :: "instrument list" where
  "example_directory =
     [[''tradingsymbol'' \<mapsto> PStr ''INFY'', ''company_name'' \<mapsto> PStr ''Infosys Limited'',
       ''exchange'' \<mapsto> PStr ''NSE'', ''instrument_type'' \<mapsto> PStr ''EQ'',
       ''instrument_token'' \<mapsto> PInt 408065],
      [''tradingsymbol'' \<mapsto> PStr ''TCS'', ''exchange'' \<mapsto> PStr ''NSE'',
       ''instrument_type'' \<mapsto> PStr ''EQ''],
      [''tradingsymbol'' \<mapsto> PStr ''TATAMOTORS'', ''company_name'' \<mapsto> PStr ''Tata Motors Limited'',
       ''exchange'' \<mapsto> PStr ''NSE'', ''instrument_type'' \<mapsto> PStr ''EQ''],
      [''tradingsymbol'' \<mapsto> PStr ''TATASTEEL'', ''company_name'' \<mapsto> PStr ''Tata Steel Limited'',
       ''exchange'' \<mapsto> PStr ''NSE'', ''instrument_type'' \<mapsto> PStr ''EQ'']]"

definition example_now :: datetime where
  "example_now = 63929304000000000"

text \<open>
  The dictionary \<^verbatim>\<open>result\<close> at the moment the loop has committed to a rule (lines 70-71),
  the intents whose parameters come from the last branch of
  \<^verbatim>\<open>_extract_basic_parameters\<close>, and the start of Unix time as a datetime: a clock
  reads no earlier.
\<close>

definition committed :: "string \<Rightarrow> string \<Rightarrow> parsed_request" where
  "committed prompt qt =
     (initial_result prompt)\<lparr>query_type := Some qt, action := Some (''get_'' @ qt)\<rparr>"

definition simple_intents :: "string list" where
  "simple_intents =
     [''trend_analysis'', ''stock_details'', ''market_sentiment'', ''dividend_history'',
      ''news_sentiment'']"

definition unix_epoch :: datetime where
  "unix_epoch = 719162 * us_per_day"

section \<open>The instrument directory\<close>

text \<open>
  \<^verbatim>\<open>InstrumentMapper\<close> of utils/instrument_mapper.py keeps the loaded instruments in the
  list \<^verbatim>\<open>_instruments_cache\<close>, empty until a load succeeds. \<open>dict_get\<close> is \<^verbatim>\<open>d.get(k)\<close>,
  \<open>py_split\<close> is \<^verbatim>\<open>str.split()\<close>: the words between runs of blanks.
\<close>

definition dict_get :: "(string \<rightharpoonup> pyval) \<Rightarrow> string \<Rightarrow> pyval" where
  "dict_get d k = get_default d k PNone"

fun split_words :: "string \<Rightarrow> string \<Rightarrow> string list" where
  "split_words w [] = (if w = [] then [] else [w])"
| "split_words w (c # cs) =
     (if is_space c then (if w = [] then split_words [] cs else w # split_words [] cs)
      else split_words (w @ [c]) cs)"

definition py_split :: "string \<Rightarrow> string list" where
  "py_split s = split_words [] s"

text \<open>\<^verbatim>\<open>any(part == v for part in parts)\<close>.\<close>

definition any_part :: "string list \<Rightarrow> pyval \<Rightarrow> bool" where
  "any_part parts v = list_ex (\<lambda>part. PStr part = v) parts"

definition instrument_types :: "(string \<times> string) list" where
  "instrument_types =
     [(''EQ'', ''EQUITY''), (''FUT'', ''FUTURES''), (''OPT'', ''OPTIONS''), (''IDX'', ''INDEX'')]"

definition exchanges :: "string list" where
  "exchanges = [''NSE'', ''BSE'']"

text \<open>
  The score of one instrument in \<^verbatim>\<open>smart_search\<close> (lines 173-207). \<open>partial_ratio\<close> is
  \<^verbatim>\<open>fuzz.partial_ratio\<close> of the library fuzzywuzzy, an integer percentage. The score
  becomes a float at \<^verbatim>\<open>score += name_score * 0.5\<close>; all its values are multiples of one
  half far below \<open>2^53\<close>, which floats add and compare exactly, so it is a rational here.
  \<^verbatim>\<open>instrument.get('name', '').upper()\<close> raises AttributeError when the name is present
  and not a string.
\<close>

definition score_instrument ::
    "(string \<Rightarrow> string \<Rightarrow> int) \<Rightarrow> string \<Rightarrow> (string \<rightharpoonup> pyval) \<Rightarrow> py_error + rat" where
  "score_instrument partial_ratio query i =
     (let parts = py_split query;
          score = 0;
          score = (if dict_get i ''trading_symbol'' = PStr query then score + 100
                   else if any_part parts (dict_get i ''trading_symbol'') then score + 80
                   else score)
      in bind (upper_of (get_default i ''name'' (PStr []))) (\<lambda>upper_name.
         let name_score = partial_ratio query upper_name;
             score = score + of_int name_score * (1 / 2);
             score = (if dict_get i ''short_name'' = PStr query then score + 90
                      else if any_part parts (dict_get i ''short_name'') then score + 70
                      else score);
             score = (if prefix ''IN'' query \<and> length query = 12
                         \<and> dict_get i ''isin'' = PStr query
                      then score + 100 else score);
             score = foldl (\<lambda>score (short_type, full_type).
                        if (short_type \<in> set parts \<or> full_type \<in> set parts)
                           \<and> dict_get i ''instrument_type'' \<in> set [PStr short_type, PStr full_type]
                        then score + 50 else score) score instrument_types;
             score = foldl (\<lambda>score exchange.
                        if exchange \<in> set parts \<and> dict_get i ''exchange'' = PStr exchange
                        then score + 50 else score) score exchanges
         in Inr score))"

text \<open>
  \<^verbatim>\<open>_format_instrument_display\<close> (lines 220-228); \<open>py_str\<close> is the text an f-string gives
  a value.
\<close>

definition format_instrument_display :: "(pyval \<Rightarrow> string) \<Rightarrow> (string \<rightharpoonup> pyval) \<Rightarrow> string" where
  "format_instrument_display py_str i =
     ''Symbol: '' @ py_str (dict_get i ''trading_symbol'') @ '' | '' @
     ''Name: '' @ py_str (dict_get i ''name'') @ '' | '' @
     ''Type: '' @ py_str (dict_get i ''instrument_type'') @ '' | '' @
     ''Exchange: '' @ py_str (dict_get i ''exchange'')"

record search_match =
  instrument :: "string \<rightharpoonup> pyval"
  score :: rat
  display_text :: string

text \<open>
  The loop of \<^verbatim>\<open>smart_search\<close> with its threshold (lines 172-214), the slice \<^verbatim>\<open>xs[:n]\<close>,
  and \<^verbatim>\<open>smart_search\<close> (lines 155-218). The sort is stable and descending in the
  score. Nothing catches an exception of the loop.
\<close>

fun search_loop ::
    "(string \<Rightarrow> string \<Rightarrow> int) \<Rightarrow> (pyval \<Rightarrow> string) \<Rightarrow> string \<Rightarrow> (string \<rightharpoonup> pyval) list
       \<Rightarrow> search_match list \<Rightarrow> py_error + search_match list" where
  "search_loop partial_ratio py_str query [] found = Inr found"
| "search_loop partial_ratio py_str query (i # rest) found =
     (case score_instrument partial_ratio query i of
        Inl e \<Rightarrow> Inl e
      | Inr sc \<Rightarrow>
          search_loop partial_ratio py_str query rest
            (if sc > 50
             then found @ [\<lparr>instrument = i, score = sc,
                             display_text = format_instrument_display py_str i\<rparr>]
             else found))"

definition slice_to :: "'a list \<Rightarrow> int \<Rightarrow> 'a list" where
  "slice_to xs n = (if n < 0 then take (length xs - nat (- n)) xs else take (nat n) xs)"

definition smart_search ::
    "(string \<Rightarrow> string \<Rightarrow> int) \<Rightarrow> (pyval \<Rightarrow> string) \<Rightarrow> (string \<rightharpoonup> pyval) list \<Rightarrow> string \<Rightarrow> int
       \<Rightarrow> py_error + search_match list" where
  "smart_search partial_ratio py_str instruments_cache query limit =
     (let query = py_strip (py_upper query) in
      bind (search_loop partial_ratio py_str query instruments_cache [])
        (\<lambda>found. Inr (slice_to (sort_key (\<lambda>m. - score m) found) limit)))"

text \<open>The lookups of lines 230-256.\<close>

definition get_instrument_by_token ::
    "(string \<rightharpoonup> pyval) list \<Rightarrow> pyval \<Rightarrow> (string \<rightharpoonup> pyval) option" where
  "get_instrument_by_token instruments_cache tok =
     find (\<lambda>i. dict_get i ''token'' = tok) instruments_cache"

definition get_instruments_by_type ::
    "(string \<rightharpoonup> pyval) list \<Rightarrow> pyval \<Rightarrow> (string \<rightharpoonup> pyval) list" where
  "get_instruments_by_type instruments_cache ty =
     filter (\<lambda>i. dict_get i ''instrument_type'' = ty) instruments_cache"

definition get_instruments_by_exchange ::
    "(string \<rightharpoonup> pyval) list \<Rightarrow> pyval \<Rightarrow> (string \<rightharpoonup> pyval) list" where
  "get_instruments_by_exchange instruments_cache ex =
     filter (\<lambda>i. dict_get i ''exchange'' = ex) instruments_cache"

definition get_instrument_by_isin ::
    "(string \<rightharpoonup> pyval) list \<Rightarrow> pyval \<Rightarrow> (string \<rightharpoonup> pyval) option" where
  "get_instrument_by_isin instruments_cache isin_code =
     find (\<lambda>i. dict_get i ''isin'' = isin_code) instruments_cache"

text \<open>
  \<^verbatim>\<open>InstrumentMapper\<close> of market/instrument_mapper.py keeps a data frame, empty when the
  download failed. The frame is modelled by its rows with the three columns the
  lookups read, each holding text. \<open>split_on c s\<close> is \<^verbatim>\<open>s.split(c)\<close>.
\<close>

record frame_row =
  segment :: string
  trading_symbol :: string
  isin :: string

fun split_on :: "char \<Rightarrow> string \<Rightarrow> string \<Rightarrow> string list" where
  "split_on sep w [] = [w]"
| "split_on sep w (c # cs) = (if c = sep then w # split_on sep [] cs else split_on sep (w @ [c]) cs)"

text \<open>\<^verbatim>\<open>search_by_trading_symbol\<close> (lines 44-79) and \<^verbatim>\<open>get_instrument_details\<close> (81-105).\<close>

definition search_by_trading_symbol :: "frame_row list \<Rightarrow> string \<Rightarrow> string \<Rightarrow> string option" where
  "search_by_trading_symbol df seg wanted =
     (if df = [] then None
      else
        (case filter (\<lambda>r. py_upper (segment r) = py_upper seg \<and>
                          py_upper (py_strip (trading_symbol r)) = py_upper (py_strip wanted)) df of
           [] \<Rightarrow> None
         | found # rest \<Rightarrow> Some (segment found @ ''|'' @ isin found)))"

definition get_instrument_details :: "frame_row list \<Rightarrow> string \<Rightarrow> py_error + frame_row option" where
  "get_instrument_details df instrument_key =
     (if df = [] then Inr None
      else
        (case split_on CHR ''|'' [] instrument_key of
           [seg, isin_code] \<Rightarrow>
             Inr (case filter (\<lambda>r. segment r = seg \<and> isin r = isin_code) df of
                    [] \<Rightarrow> None
                  | found # rest \<Rightarrow> Some found)
         | _ \<Rightarrow> Inl ValueError))"

text \<open>
  \<^verbatim>\<open>_process_master_data\<close> (lines 89-115): the instrument that the loader stores for a
  record of the master file. Every field is read with \<^verbatim>\<open>get\<close>, so a field that the
  record lacks is stored as None; the key is always there. \<open>py_str\<close> is the text an
  f-string gives a value.
\<close>

definition process_instrument :: "(pyval \<Rightarrow> string) \<Rightarrow> (string \<rightharpoonup> pyval) \<Rightarrow> (string \<rightharpoonup> pyval)" where
  "process_instrument py_str raw =
     [''instrument_key'' \<mapsto>
        PStr (py_str (dict_get raw ''exchange'') @ ''-'' @ py_str (dict_get raw ''symbol'')),
      ''exchange'' \<mapsto> dict_get raw ''exchange'',
      ''trading_symbol'' \<mapsto> dict_get raw ''symbol'',
      ''name'' \<mapsto> dict_get raw ''name'',
      ''instrument_type'' \<mapsto> dict_get raw ''type'',
      ''short_name'' \<mapsto> dict_get raw ''symbol'',
      ''isin'' \<mapsto> dict_get raw ''isin'',
      ''lot_size'' \<mapsto> dict_get raw ''lot_size'',
      ''tick_size'' \<mapsto> dict_get raw ''tick_size'',
      ''strike'' \<mapsto> dict_get raw ''strike'',
      ''expiry'' \<mapsto> dict_get raw ''expiry'',
      ''token'' \<mapsto> dict_get raw ''token'']"

definition process_master_data ::
    "(pyval \<Rightarrow> string) \<Rightarrow> (string \<rightharpoonup> pyval) list \<Rightarrow> (string \<rightharpoonup> pyval) list" where
  "process_master_data py_str raw_data = map (process_instrument py_str) raw_data"

text \<open>A record of the master file that carries no name.\<close>

definition nameless_record :: "string \<rightharpoonup> pyval" where
  "nameless_record =
     [''exchange'' \<mapsto> PStr ''NSE'', ''symbol'' \<mapsto> PStr ''TCS'', ''type'' \<mapsto> PStr ''EQ'']"

text \<open>
  The name of an instrument is text, or the instrument has no entry for it: what
  \<^verbatim>\<open>instrument.get('name', '').upper()\<close> needs in order not to raise.
\<close>

definition name_is_text :: "(string \<rightharpoonup> pyval) \<Rightarrow> bool" where
  "name_is_text i = (case i ''name'' of None \<Rightarrow> True | Some (PStr n) \<Rightarrow> True | Some v \<Rightarrow> False)"

text \<open>A percentage for examples: 100 for equal texts, 0 otherwise.\<close>

definition example_ratio :: "string \<Rightarrow> string \<Rightarrow> int" where
  "example_ratio a b = (if a = b then 100 else 0)"

definition example_cache :: "(string \<rightharpoonup> pyval) list" where
  "example_cache =
     [[''trading_symbol'' \<mapsto> PStr ''TCS'', ''name'' \<mapsto> PStr ''Tata Consultancy Services'',
       ''short_name'' \<mapsto> PStr ''TCS'', ''exchange'' \<mapsto> PStr ''NSE'',
       ''instrument_type'' \<mapsto> PStr ''EQ''],
      [''trading_symbol'' \<mapsto> PStr ''INFY'', ''name'' \<mapsto> PStr ''Infosys'',
       ''short_name'' \<mapsto> PStr ''INFY'', ''exchange'' \<mapsto> PStr ''NSE'',
       ''instrument_type'' \<mapsto> PStr ''EQ'']]"

section \<open>The analysis dispatcher\<close>

text \<open>
  An exception with the text \<^verbatim>\<open>str(e)\<close> gives. The text of a KeyError is the key in
  quotes; the text of the AttributeError for a method the class does not have names
  the class and the method.
\<close>

datatype exc = Exc py_error string

definition quoted :: "string \<Rightarrow> string" where
  "quoted s = CHR 0x27 # s @ [CHR 0x27]"

definition key_error :: "string \<Rightarrow> exc" where
  "key_error k = Exc KeyError (quoted k)"

definition no_attribute :: "string \<Rightarrow> exc" where
  "no_attribute n =
     Exc AttributeError (quoted ''AnalysisProcessor'' @ '' object has no attribute '' @ quoted n)"

text \<open>
  The result of an analysis and of a fetch: the dictionary with \<^verbatim>\<open>success\<close> and either
  \<^verbatim>\<open>data\<close> or \<^verbatim>\<open>error\<close>. \<open>failure msg\<close> is \<^verbatim>\<open>{'success': False, 'error': msg}\<close> and
  \<open>caught e\<close> is what every handler of \<^verbatim>\<open>except Exception as e\<close> returns.
\<close>

record 'd result =
  success :: bool
  error :: "string option"
  data :: "'d option"

definition failure :: "string \<Rightarrow> 'd result" where
  "failure msg = \<lparr>success = False, error = Some msg, data = None\<rparr>"

definition caught :: "exc \<Rightarrow> 'd result" where
  "caught e = (case e of Exc kind msg \<Rightarrow> failure msg)"

definition param :: "(string \<times> pyval) list \<Rightarrow> string \<Rightarrow> exc + pyval" where
  "param ps k = (case map_of ps k of None \<Rightarrow> Inl (key_error k) | Some v \<Rightarrow> Inr v)"

text \<open>
  The coroutine methods that the class \<^verbatim>\<open>AnalysisProcessor\<close> defines
  (analysis_processor.py, lines 55-340), and \<^verbatim>\<open>self.name\<close> for a method name.
\<close>

datatype handler =
    AnalyzePriceMovement | AnalyzeMarketSentiment | AnalyzeVolume | AnalyzeSector
  | AnalyzeComparison | AnalyzeSupportResistance | AnalyzeMovingAverages | AnalyzeRsi
  | GetStockDetails

definition methods :: "(string \<times> handler) list" where
  "methods =
     [(''_analyze_price_movement'', AnalyzePriceMovement),
      (''_analyze_market_sentiment'', AnalyzeMarketSentiment),
      (''_analyze_volume'', AnalyzeVolume),
      (''_analyze_sector'', AnalyzeSector),
      (''_analyze_comparison'', AnalyzeComparison),
      (''_analyze_support_resistance'', AnalyzeSupportResistance),
      (''_analyze_moving_averages'', AnalyzeMovingAverages),
      (''_analyze_rsi'', AnalyzeRsi),
      (''_get_stock_details'', GetStockDetails)]"

definition getattr_self :: "string \<Rightarrow> exc + handler" where
  "getattr_self n = (case map_of methods n of None \<Rightarrow> Inl (no_attribute n) | Some h \<Rightarrow> Inr h)"

text \<open>
  The dictionary display \<^verbatim>\<open>analysis_methods\<close> (lines 25-38): each key with the method
  name it reads from \<^verbatim>\<open>self\<close>, evaluated from the first entry to the last.
\<close>

definition analysis_method_names :: "(string \<times> string) list" where
  "analysis_method_names =
     [(''historical'', ''_analyze_historical_data''),
      (''top_performers'', ''_analyze_top_performers''),
      (''trend_analysis'', ''_analyze_trend''),
      (''price_movement'', ''_analyze_price_movement''),
      (''market_sentiment'', ''_analyze_market_sentiment''),
      (''volume_analysis'', ''_analyze_volume''),
      (''sector_performance'', ''_analyze_sector''),
      (''comparison'', ''_analyze_comparison''),
      (''support_resistance'', ''_analyze_support_resistance''),
      (''moving_averages'', ''_analyze_moving_averages''),
      (''rsi_analysis'', ''_analyze_rsi''),
      (''stock_details'', ''_get_stock_details'')]"

fun build_methods :: "(string \<times> string) list \<Rightarrow> exc + (string \<times> handler) list" where
  "build_methods [] = Inr []"
| "build_methods ((k, n) # rest) =
     (case getattr_self n of
        Inl e \<Rightarrow> Inl e
      | Inr h \<Rightarrow> (case build_methods rest of Inl e \<Rightarrow> Inl e | Inr table \<Rightarrow> Inr ((k, h) # table)))"

text \<open>
  The handlers. \<open>fetch\<close> is \<^verbatim>\<open>StockProcessor.get_stock_data\<close>, a collaborator with a state
  of its own (its cache, the network): it takes the state, the symbol and the date and
  returns its result with the new state. \<open>indicators\<close> stands for what a handler
  computes from the data fetched, floating-point work of pandas that may raise.
  The seven handlers of one symbol have the same body up to that computation.
\<close>

definition analyze_single ::
    "('w \<Rightarrow> pyval \<Rightarrow> pyval \<Rightarrow> 'd result \<times> 'w)
       \<Rightarrow> (handler \<Rightarrow> (string \<times> pyval) list \<Rightarrow> 'd list \<Rightarrow> exc + 'd)
       \<Rightarrow> handler \<Rightarrow> (string \<times> pyval) list \<Rightarrow> 'w \<Rightarrow> 'd result \<times> 'w" where
  "analyze_single fetch indicators h ps w =
     (case param ps ''symbol'' of
        Inl e \<Rightarrow> (caught e, w)
      | Inr stock \<Rightarrow>
     (case param ps ''from_date'' of
        Inl e \<Rightarrow> (caught e, w)
      | Inr from_date \<Rightarrow>
     (case fetch w stock from_date of
        (stock_data, w1) \<Rightarrow>
          if \<not> success stock_data then (stock_data, w1)
          else
            (case data stock_data of
               None \<Rightarrow> (caught (key_error ''data''), w1)
             | Some d \<Rightarrow>
                 (case indicators h ps [d] of
                    Inl e \<Rightarrow> (caught e, w1)
                  | Inr out \<Rightarrow> (\<lparr>success = True, error = None, data = Some out\<rparr>, w1))))))"

text \<open>\<^verbatim>\<open>_analyze_comparison\<close> (lines 200-231).\<close>

definition analyze_comparison ::
    "('w \<Rightarrow> pyval \<Rightarrow> pyval \<Rightarrow> 'd result \<times> 'w)
       \<Rightarrow> (handler \<Rightarrow> (string \<times> pyval) list \<Rightarrow> 'd list \<Rightarrow> exc + 'd)
       \<Rightarrow> (string \<times> pyval) list \<Rightarrow> 'w \<Rightarrow> 'd result \<times> 'w" where
  "analyze_comparison fetch indicators ps w =
     (case param ps ''symbol1'' of
        Inl e \<Rightarrow> (caught e, w)
      | Inr symbol1 \<Rightarrow>
     (case param ps ''from_date'' of
        Inl e \<Rightarrow> (caught e, w)
      | Inr from_date \<Rightarrow>
     (case fetch w symbol1 from_date of
        (stock1_data, w1) \<Rightarrow>
     (case param ps ''symbol2'' of
        Inl e \<Rightarrow> (caught e, w1)
      | Inr symbol2 \<Rightarrow>
     (case fetch w1 symbol2 from_date of
        (stock2_data, w2) \<Rightarrow>
          if \<not> success stock1_data \<or> \<not> success stock2_data
          then (failure ''Failed to fetch comparison data'', w2)
          else
            (case (data stock1_data, data stock2_data) of
               (Some d1, Some d2) \<Rightarrow>
                 (case indicators AnalyzeComparison ps [d1, d2] of
                    Inl e \<Rightarrow> (caught e, w2)
                  | Inr out \<Rightarrow> (\<lparr>success = True, error = None, data = Some out\<rparr>, w2))
             | _ \<Rightarrow> (caught (key_error ''data''), w2)))))))"

text \<open>
  \<^verbatim>\<open>_analyze_sector\<close> (lines 165-198) with \<^verbatim>\<open>_get_sector_stocks\<close> (lines 398-401), which
  returns the empty list for every sector. The loop keeps the data of the fetches that
  succeed and goes on after one that fails.
\<close>

definition get_sector_stocks :: "pyval \<Rightarrow> string list" where
  "get_sector_stocks sector = []"

fun sector_loop ::
    "('w \<Rightarrow> pyval \<Rightarrow> pyval \<Rightarrow> 'd result \<times> 'w) \<Rightarrow> (string \<times> pyval) list \<Rightarrow> string list
       \<Rightarrow> 'd list \<Rightarrow> 'w \<Rightarrow> (exc + 'd list) \<times> 'w" where
  "sector_loop fetch ps [] sector_data w = (Inr sector_data, w)"
| "sector_loop fetch ps (stock # rest) sector_data w =
     (case param ps ''from_date'' of
        Inl e \<Rightarrow> (Inl e, w)
      | Inr from_date \<Rightarrow>
          (case fetch w (PStr stock) from_date of
             (fetched, w1) \<Rightarrow>
               if success fetched then
                 (case data fetched of
                    None \<Rightarrow> (Inl (key_error ''data''), w1)
                  | Some d \<Rightarrow> sector_loop fetch ps rest (sector_data @ [d]) w1)
               else sector_loop fetch ps rest sector_data w1))"

definition analyze_sector ::
    "('w \<Rightarrow> pyval \<Rightarrow> pyval \<Rightarrow> 'd result \<times> 'w)
       \<Rightarrow> (handler \<Rightarrow> (string \<times> pyval) list \<Rightarrow> 'd list \<Rightarrow> exc + 'd)
       \<Rightarrow> (string \<times> pyval) list \<Rightarrow> 'w \<Rightarrow> 'd result \<times> 'w" where
  "analyze_sector fetch indicators ps w =
     (case param ps ''sector'' of
        Inl e \<Rightarrow> (caught e, w)
      | Inr sector \<Rightarrow>
          (case sector_loop fetch ps (get_sector_stocks sector) [] w of
             (Inl e, w1) \<Rightarrow> (caught e, w1)
           | (Inr sector_data, w1) \<Rightarrow>
               (case indicators AnalyzeSector ps sector_data of
                  Inl e \<Rightarrow> (caught e, w1)
                | Inr out \<Rightarrow> (\<lparr>success = True, error = None, data = Some out\<rparr>, w1))))"

definition run_handler ::
    "('w \<Rightarrow> pyval \<Rightarrow> pyval \<Rightarrow> 'd result \<times> 'w)
       \<Rightarrow> (handler \<Rightarrow> (string \<times> pyval) list \<Rightarrow> 'd list \<Rightarrow> exc + 'd)
       \<Rightarrow> handler \<Rightarrow> (string \<times> pyval) list \<Rightarrow> 'w \<Rightarrow> 'd result \<times> 'w" where
  "run_handler fetch indicators h ps w =
     (case h of
        AnalyzeSector \<Rightarrow> analyze_sector fetch indicators ps w
      | AnalyzeComparison \<Rightarrow> analyze_comparison fetch indicators ps w
      | _ \<Rightarrow> analyze_single fetch indicators h ps w)"

text \<open>The handlers that fetch the data of the one symbol of the request.\<close>

definition single_symbol_handlers :: "handler list" where
  "single_symbol_handlers =
     [AnalyzePriceMovement, AnalyzeMarketSentiment, AnalyzeVolume, AnalyzeSupportResistance,
      AnalyzeMovingAverages, AnalyzeRsi, GetStockDetails]"

text \<open>
  \<^verbatim>\<open>process_analysis_request\<close> (lines 19-53), on the request that \<^verbatim>\<open>process_prompt\<close>
  returned. \<open>unsupported\<close> is the text of line 45.
\<close>

definition unsupported :: "string option \<Rightarrow> string" where
  "unsupported qt =
     ''Unsupported analysis type: '' @ (case qt of None \<Rightarrow> ''None'' | Some t \<Rightarrow> t)"

definition process_analysis_request ::
    "('w \<Rightarrow> pyval \<Rightarrow> pyval \<Rightarrow> 'd result \<times> 'w)
       \<Rightarrow> (handler \<Rightarrow> (string \<times> pyval) list \<Rightarrow> 'd list \<Rightarrow> exc + 'd)
       \<Rightarrow> parsed_request \<Rightarrow> 'w \<Rightarrow> 'd result \<times> 'w" where
  "process_analysis_request fetch indicators request w =
     (let qt = query_type request in
      case build_methods analysis_method_names of
        Inl e \<Rightarrow> (caught e, w)
      | Inr analysis_methods \<Rightarrow>
          (case (case qt of None \<Rightarrow> None | Some t \<Rightarrow> map_of analysis_methods t) of
             Some h \<Rightarrow> run_handler fetch indicators h (parameters request) w
           | None \<Rightarrow> (failure (unsupported qt), w)))"

text \<open>
  For examples: a fetch that always fails with the text \<^verbatim>\<open>timeout\<close> and counts the
  calls made in its state, and indicators that compute nothing.
\<close>

definition failing_fetch :: "nat \<Rightarrow> pyval \<Rightarrow> pyval \<Rightarrow> unit result \<times> nat" where
  "failing_fetch w stock from_date = (failure ''timeout'', Suc w)"

definition no_indicators :: "handler \<Rightarrow> (string \<times> pyval) list \<Rightarrow> unit list \<Rightarrow> exc + unit" where
  "no_indicators h ps ds = Inr ()"

section \<open>Support and resistance\<close>

text \<open>
  \<^verbatim>\<open>StockProcessor.find_support_resistance\<close> (stock_processor.py, lines 166-189) reads
  the columns \<^verbatim>\<open>high\<close> and \<^verbatim>\<open>low\<close> of the frame, one row for each bar. Prices are only
  compared here, so they are rationals. A centered rolling window of pandas of size
  \<open>window\<close> at row \<open>i\<close> covers the rows from \<open>i + 1 + (window - 1) div 2 - window\<close> up
  to \<open>i + (window - 1) div 2\<close>, and has no value (NaN) unless all of them exist.
\<close>

record bar =
  high :: rat
  low :: rat

definition rolling_center :: "(rat list \<Rightarrow> rat) \<Rightarrow> nat \<Rightarrow> rat list \<Rightarrow> rat option list" where
  "rolling_center agg window xs =
     map (\<lambda>i. let stop = i + 1 + (window - 1) div 2 in
               if 0 < window \<and> window \<le> stop \<and> stop \<le> length xs
               then Some (agg (take window (drop (stop - window) xs))) else None)
       [0 ..< length xs]"

text \<open>The rows whose value equals the rolling value: \<^verbatim>\<open>df[df['high'] == df['Local_Max']]\<close>.\<close>

definition where_equal :: "rat list \<Rightarrow> rat option list \<Rightarrow> rat list" where
  "where_equal xs marks = map fst (filter (\<lambda>(x, m). m = Some x) (zip xs marks))"

text \<open>
  The values are held in an array of numpy or in a list of Python: \<^verbatim>\<open>unique\<close> gives an
  array, in the order of first appearance; \<^verbatim>\<open>sorted\<close> gives a list; a slice keeps the
  kind; and \<^verbatim>\<open>tolist\<close> is a method of arrays only, a list has no such attribute.
\<close>

datatype levels = NdArray "rat list" | PyList "rat list"

definition elements :: "levels \<Rightarrow> rat list" where
  "elements l = (case l of NdArray xs \<Rightarrow> xs | PyList xs \<Rightarrow> xs)"

definition unique :: "rat list \<Rightarrow> levels" where
  "unique xs = NdArray (rev (remdups (rev xs)))"

definition sorted_py :: "levels \<Rightarrow> levels" where
  "sorted_py l = PyList (sort (elements l))"

definition slice_last :: "nat \<Rightarrow> levels \<Rightarrow> levels" where
  "slice_last n l =
     (case l of NdArray xs \<Rightarrow> NdArray (drop (length xs - n) xs)
              | PyList xs \<Rightarrow> PyList (drop (length xs - n) xs))"

definition slice_first :: "nat \<Rightarrow> levels \<Rightarrow> levels" where
  "slice_first n l = (case l of NdArray xs \<Rightarrow> NdArray (take n xs) | PyList xs \<Rightarrow> PyList (take n xs))"

definition tolist :: "levels \<Rightarrow> py_error + rat list" where
  "tolist l = (case l of NdArray xs \<Rightarrow> Inr xs | PyList xs \<Rightarrow> Inl AttributeError)"

text \<open>Lines 172-180: the levels as they stand before the dictionary is built.\<close>

definition levels_found :: "bar list \<Rightarrow> nat \<Rightarrow> levels \<times> levels" where
  "levels_found bars window =
     (let local_max = rolling_center (\<lambda>ys. Max (set ys)) window (map high bars);
          local_min = rolling_center (\<lambda>ys. Min (set ys)) window (map low bars);
          resistance_levels = unique (where_equal (map high bars) local_max);
          support_levels = unique (where_equal (map low bars) local_min);
          resistance_levels = slice_last 5 (sorted_py resistance_levels);
          support_levels = slice_first 5 (sorted_py support_levels)
      in (support_levels, resistance_levels))"

record support_resistance =
  support :: "rat list"
  resistance :: "rat list"

text \<open>
  \<^verbatim>\<open>find_support_resistance\<close>: the dictionary of lines 182-185 calls \<^verbatim>\<open>tolist\<close> on both
  levels, and the handler of line 187 returns two empty lists on any exception.
\<close>

definition find_support_resistance :: "bar list \<Rightarrow> nat \<Rightarrow> support_resistance" where
  "find_support_resistance bars window =
     (case (case levels_found bars window of
              (support_levels, resistance_levels) \<Rightarrow>
                bind (tolist support_levels) (\<lambda>s.
                bind (tolist resistance_levels) (\<lambda>r.
                Inr \<lparr>support = s, resistance = r\<rparr>))) of
        Inl e \<Rightarrow> \<lparr>support = [], resistance = []\<rparr>
      | Inr out \<Rightarrow> out)"

text \<open>
  What the specification says is returned: the five highest distinct local maxima of
  \<^verbatim>\<open>high\<close> and the five lowest distinct local minima of \<^verbatim>\<open>low\<close>, ascending.
\<close>

definition specified_levels :: "bar list \<Rightarrow> nat \<Rightarrow> support_resistance" where
  "specified_levels bars window =
     (let maxima = where_equal (map high bars)
                     (rolling_center (\<lambda>ys. Max (set ys)) window (map high bars));
          minima = where_equal (map low bars)
                     (rolling_center (\<lambda>ys. Min (set ys)) window (map low bars));
          top = sort (remdups maxima);
          bottom = sort (remdups minima)
      in \<lparr>support = take 5 bottom, resistance = drop (length top - 5) top\<rparr>)"

text \<open>A series of 21 bars with one peak and one trough, at the eleventh bar.\<close>

definition peak_series :: "bar list" where
  "peak_series =
     replicate 10 \<lparr>high = 10, low = 9\<rparr> @ [\<lparr>high = 15, low = 8\<rparr>] @
     replicate 10 \<lparr>high = 10, low = 9\<rparr>"

section \<open>Sequencing of computations that may raise\<close>

lemma bind_Inr_iff: "bind m f = Inr y \<longleftrightarrow> (\<exists>x. m = Inr x \<and> f x = Inr y)"
  by (cases m) (simp_all add: bind_def)

lemma bind_Inr [simp]: "bind (Inr x) f = f x"
  by (simp add: bind_def)

lemma bind_Inl [simp]: "bind (Inl e) f = Inl e"
  by (simp add: bind_def)

section \<open>Results about the date range\<close>

lemma calculate_date_range_eq:
  assumes "valid_datetime now" and "0 \<le> d" and "map_of unit_days (py_lower u) = Some k"
  shows "calculate_date_range now d u =
           (if d * k \<le> 999999999 \<and> d * k * us_per_day \<le> now
            then Inr (now - d * k * us_per_day) else Inl OverflowError)"
proof -
  have "\<exists>f. map_of unit_mapping (py_lower u) = Some f \<and> (\<forall>x. f x = timedelta_days (x * k))"
    using assms(3)
    by (auto simp: unit_days_def unit_mapping_def timedelta_weeks_def split: if_splits)
  then obtain f
    where f: "map_of unit_mapping (py_lower u) = Some f" "\<And>x. f x = timedelta_days (x * k)"
    by blast
  have k: "0 < k"
    using assms(3) by (auto simp: unit_days_def split: if_splits)
  with assms(2) have nonneg: "0 \<le> d * k" by simp
  hence span: "0 \<le> d * k * us_per_day" by (simp add: us_per_day_def)
  show ?thesis
    using assms(1) nonneg span
    by (simp add: calculate_date_range_def f bind_def timedelta_days_def datetime_sub_def
        valid_datetime_def)
qed

text \<open>
  Claim C3, as amended. For a non-negative duration and a unit of the table
  (day = 1, week = 7, month = 30, year = 365 days), with \<open>now\<close> a datetime: when the span
  is at most 999999999 days and does not reach before \<^verbatim>\<open>datetime.min\<close>, the computed
  from_date is \<open>now\<close> minus the span, and it is not later than \<open>now\<close>; for any longer span
  the computation raises OverflowError and yields no from_date.
\<close>

theorem calculate_date_range_table:
  assumes "valid_datetime now" and "0 \<le> d" and "map_of unit_days (py_lower u) = Some k"
  shows "calculate_date_range now d u =
           (if d * k \<le> 999999999 \<and> d * k * us_per_day \<le> now
            then Inr (now - d * k * us_per_day) else Inl OverflowError)
         \<and> (\<forall>from_date. calculate_date_range now d u = Inr from_date \<longrightarrow> from_date \<le> now)"
proof -
  have "0 < k"
    using assms(3) by (auto simp: unit_days_def split: if_splits)
  with assms(2) have "0 \<le> d * k * us_per_day" by (simp add: us_per_day_def)
  then show ?thesis
    by (auto simp: calculate_date_range_eq [OF assms] split: if_splits)
qed

theorem calculate_date_range_table_witness:
  "calculate_date_range 63929304000000000 5 ''Year'' = Inr 63771624000000000
   \<and> (63771624000000000 :: int) \<le> 63929304000000000"
proof -
  have v: "valid_datetime 63929304000000000"
    by (simp add: valid_datetime_def max_ordinal_def us_per_day_def)
  have u: "map_of unit_days (py_lower ''Year'') = Some 365"
    by (simp add: unit_days_def py_lower_def char_lower_def upper_chars_def lower_chars_def)
  show ?thesis
    using calculate_date_range_table [OF v _ u, of 5] by (simp add: us_per_day_def)
qed

text \<open>
  The claim as stated fails for a long duration: on 2026-11-03 12:00 a request for 3000
  years of data has no from_date, the subtraction raises OverflowError.
\<close>

theorem calculate_date_range_counterexample:
  "calculate_date_range 63929304000000000 3000 ''year'' = Inl OverflowError"
  by (simp add: calculate_date_range_def unit_mapping_def py_lower_def char_lower_def
      upper_chars_def lower_chars_def bind_def timedelta_days_def datetime_sub_def
      valid_datetime_def us_per_day_def max_ordinal_def)

section \<open>Results about the candidate search\<close>

lemma str_contains_sublist: "str_contains q s = sublist q s"
  by (induction s) (auto simp: sublist_Cons_right)

lemma match_instrument_readable:
  assumes "readable q i"
  shows "match_instrument q i = Inr (if contains_query q i then Some (candidate_of i) else None)"
  using assms
  by (auto simp: readable_def match_instrument_def contains_query_def candidate_of_def
      symbol_text_def company_text_def getitem_def get_default_def py_in_def upper_of_def
      bind_def str_contains_sublist
      split: option.splits pyval.splits)

lemma match_instrument_unreadable:
  assumes "\<not> readable q i"
  shows "\<exists>e. match_instrument q i = Inl e"
  using assms
  by (auto simp: readable_def match_instrument_def contains_query_def
      symbol_text_def company_text_def getitem_def get_default_def py_in_def upper_of_def
      bind_def str_contains_sublist
      split: option.splits pyval.splits)

lemma match_loop_readable:
  assumes "list_all (readable q) is"
  shows "match_loop q is acc = Inr (acc @ map candidate_of (filter (contains_query q) is))"
  using assms
  by (induction "is" arbitrary: acc) (simp_all add: match_instrument_readable)

lemma match_loop_unreadable:
  assumes "\<not> list_all (readable q) is"
  shows "\<exists>e. match_loop q is acc = Inl e"
  using assms
proof (induction "is" arbitrary: acc)
  case Nil
  then show ?case by simp
next
  case (Cons i "is")
  show ?case
  proof (cases "readable q i")
    case True
    with Cons.prems have "\<not> list_all (readable q) is" by simp
    from Cons.IH [OF this] show ?thesis
      by (simp add: match_instrument_readable [OF True])
  next
    case False
    from match_instrument_unreadable [OF this] show ?thesis by auto
  qed
qed

text \<open>
  Claim C10. The candidates are the instruments whose trading symbol, or uppercased
  company name, contains the uppercased and stripped query as a contiguous block, in
  the order of the directory; when the call to the directory or any lookup of the loop
  raises, the result is the empty list.
\<close>

theorem find_matching_instruments_substring:
  "find_matching_instruments get_all_instruments query =
     (case get_all_instruments of
        Inl e \<Rightarrow> []
      | Inr instruments \<Rightarrow>
          if list_all (readable (py_upper (py_strip query))) instruments
          then map candidate_of (filter (contains_query (py_upper (py_strip query))) instruments)
          else [])"
proof (cases get_all_instruments)
  case (Inl e)
  then show ?thesis by (simp add: find_matching_instruments_def bind_def)
next
  case (Inr instruments)
  show ?thesis
  proof (cases "list_all (readable (py_upper (py_strip query))) instruments")
    case True
    then show ?thesis
      by (simp add: Inr find_matching_instruments_def bind_def match_loop_readable)
  next
    case False
    from match_loop_unreadable [OF this, of "[]"] show ?thesis
      using False by (auto simp: Inr find_matching_instruments_def bind_def)
  qed
qed

theorem find_matching_instruments_substring_witness:
  "find_matching_instruments (Inr example_directory) '' infosys '' =
     [\<lparr>symbol = PStr ''INFY'', name = PStr ''Infosys Limited'', exchange = PStr ''NSE'',
       instrument_type = PStr ''EQ'', token = PInt 408065\<rparr>]"
  unfolding find_matching_instruments_substring by code_simp

section \<open>Results about the intent matcher\<close>

lemma prompt_loop_first_match:
  "prompt_loop search g now prompt ps result =
     (case first_match search prompt ps of
        None \<Rightarrow> Inr result
      | Some (qt, m) \<Rightarrow>
          bind (extract_parameters g now qt m
                  (result\<lparr>query_type := Some qt, action := Some (''get_'' @ qt)\<rparr>))
            (\<lambda>r. Inr (resolve_symbol g r)))"
  by (induction ps arbitrary: result) (auto split: option.splits)

lemma process_prompt_unfold:
  "process_prompt search g now prompt =
     (case first_match search prompt patterns of
        None \<Rightarrow> Parsed (initial_result prompt)
      | Some (qt, m) \<Rightarrow>
          (case extract_parameters g now qt m (committed prompt qt) of
             Inl e \<Rightarrow> PromptError e prompt
           | Inr r \<Rightarrow> Parsed (resolve_symbol g r)))"
  by (simp add: process_prompt_def prompt_loop_first_match bind_def committed_def
      split: option.splits sum.splits)

lemma first_match_append:
  assumes "\<forall>(qt', p') \<in> set pre. search p' prompt = None"
  shows "first_match search prompt (pre @ ps) = first_match search prompt ps"
  using assms by (induction pre) auto

lemma extract_basic_parameters_keeps:
  assumes "extract_basic_parameters now m qt = Inr ps"
  shows "map_of ps ''instrument_token'' = None"
  using assms unfolding extract_basic_parameters_def
  by (auto simp: bind_Inr_iff split: if_splits prod.splits)

lemma extract_parameters_fields:
  assumes "extract_parameters g now qt m r = Inr r'"
  shows "query_type r' = query_type r \<and> action r' = action r
         \<and> original_prompt r' = original_prompt r
         \<and> map_of (parameters r') ''instrument_token'' = None"
  using assms unfolding extract_parameters_def Let_def
  by (auto simp: bind_Inr_iff extract_basic_parameters_keeps split: if_splits prod.splits)

lemma resolve_symbol_fields:
  "query_type (resolve_symbol g r) = query_type r \<and> action (resolve_symbol g r) = action r
   \<and> original_prompt (resolve_symbol g r) = original_prompt r"
  by (simp add: resolve_symbol_def Let_def split: list.splits)


lemma py_lower_day: "py_lower ''day'' = ''day''"
  by (simp add: py_lower_def char_lower_def upper_chars_def lower_chars_def)

lemma calculate_date_range_days:
  assumes "valid_datetime now" and "unix_epoch \<le> now" and "0 \<le> d" and "d \<le> 719162"
  shows "calculate_date_range now d ''day'' = Inr (now - d * us_per_day)"
proof -
  have u: "map_of unit_days (py_lower ''day'') = Some 1"
    by (simp add: py_lower_day unit_days_def)
  have "d * us_per_day \<le> unix_epoch"
    using assms(4) by (simp add: unix_epoch_def us_per_day_def)
  with assms(2) have "d * us_per_day \<le> now" by simp
  with assms(4) show ?thesis
    using calculate_date_range_eq [OF assms(1) assms(3) u] by simp
qed

text \<open>
  Claim C1, as amended. When \<open>(qt, p)\<close> is the first rule of the declared order whose
  pattern matches the text, \<^verbatim>\<open>process_prompt\<close> commits to it: what it returns is decided
  by the parameter extraction of that rule alone. When the extraction completes, the
  result carries \<^verbatim>\<open>query_type = qt\<close> and \<^verbatim>\<open>action = get_qt\<close>; when it raises, the error
  dictionary is returned, which has no query type. No later rule is tried: a matcher
  that differs from \<open>search\<close> only on later rules gives the same result.
\<close>

theorem process_prompt_first_match_wins:
  assumes "patterns = pre @ (qt, p) # post"
    and "\<forall>(qt', p') \<in> set pre. search p' prompt = None"
    and "search p prompt = Some m"
  shows "process_prompt search g now prompt =
           (case extract_parameters g now qt m (committed prompt qt) of
              Inl e \<Rightarrow> PromptError e prompt
            | Inr r \<Rightarrow> Parsed (resolve_symbol g r))
         \<and> (\<forall>r. process_prompt search g now prompt = Parsed r \<longrightarrow>
                query_type r = Some qt \<and> action r = Some (''get_'' @ qt))
         \<and> (\<forall>search'. (\<forall>(qt', p') \<in> set (pre @ [(qt, p)]). search' p' prompt = search p' prompt)
                \<longrightarrow> process_prompt search' g now prompt = process_prompt search g now prompt)"
proof -
  have fm: "first_match s' prompt patterns = Some (qt, m)"
    if agree: "\<forall>(qt', p') \<in> set (pre @ [(qt, p)]). s' p' prompt = search p' prompt" for s'
  proof -
    have "s' p' prompt = None" if "(q', p') \<in> set pre" for q' p'
      using that agree assms(2) by fastforce
    hence "\<forall>(qt', p') \<in> set pre. s' p' prompt = None" by auto
    moreover from agree assms(3) have "s' p prompt = Some m" by simp
    ultimately show ?thesis by (simp add: assms(1) first_match_append)
  qed
  have own: "first_match search prompt patterns = Some (qt, m)"
    by (rule fm) simp
  have unfold: "process_prompt search g now prompt =
           (case extract_parameters g now qt m (committed prompt qt) of
              Inl e \<Rightarrow> PromptError e prompt
            | Inr r \<Rightarrow> Parsed (resolve_symbol g r))"
    by (simp add: process_prompt_unfold own)
  have qt: "query_type r = Some qt \<and> action r = Some (''get_'' @ qt)"
    if "process_prompt search g now prompt = Parsed r" for r
  proof -
    from that unfold obtain r0 where
      r0: "extract_parameters g now qt m (committed prompt qt) = Inr r0" "r = resolve_symbol g r0"
      by (auto split: sum.splits)
    from extract_parameters_fields [OF r0(1)] show ?thesis
      by (simp add: r0(2) resolve_symbol_fields committed_def)
  qed
  have other: "process_prompt s' g now prompt = process_prompt search g now prompt"
    if agree: "\<forall>(qt', p') \<in> set (pre @ [(qt, p)]). s' p' prompt = search p' prompt" for s'
    using fm [of s', OF agree] by (simp add: process_prompt_unfold own)
  from unfold qt other show ?thesis by blast
qed

lemma resolve_symbol_other_keys:
  assumes "k \<noteq> ''symbol''" and "k \<noteq> ''instrument_token''"
  shows "map_of (parameters (resolve_symbol g r)) k = map_of (parameters r) k"
  using assms by (simp add: resolve_symbol_def Let_def update_conv' split: list.splits)

text \<open>
  Claim C2. Let \<open>r0\<close> be the request as extracted from the text by the rule that
  matched, with a string \<open>s\<close> for its symbol. When \<open>s\<close> is not empty the candidates of
  \<open>s\<close> are searched and passed on in \<^verbatim>\<open>matches\<close>; with exactly one candidate the symbol
  becomes the trading symbol of the candidate and its token is attached as
  \<^verbatim>\<open>instrument_token\<close>; with none or several the parameters are those extracted, with no
  token. An empty symbol is not searched, and the request is returned as extracted.
\<close>

theorem process_prompt_resolution:
  assumes "first_match search prompt patterns = Some (qt, m)"
    and "extract_parameters g now qt m (committed prompt qt) = Inr r0"
    and "map_of (parameters r0) ''symbol'' = Some (PStr s)"
  shows "\<exists>r. process_prompt search g now prompt = Parsed r \<and>
           (if s = [] then r = r0
            else matches r = Candidates (find_matching_instruments g s) \<and>
              (case find_matching_instruments g s of
                 [c] \<Rightarrow> parameters r =
                          AList.update ''instrument_token'' (token c)
                            (AList.update ''symbol'' (symbol c) (parameters r0))
               | _ \<Rightarrow> parameters r = parameters r0 \<and> map_of (parameters r) ''symbol'' = Some (PStr s)
                      \<and> map_of (parameters r) ''instrument_token'' = None))"
proof -
  have run: "process_prompt search g now prompt = Parsed (resolve_symbol g r0)"
    by (simp add: process_prompt_unfold assms(1) assms(2))
  have token: "map_of (parameters r0) ''instrument_token'' = None"
    using extract_parameters_fields [OF assms(2)] by simp
  have "if s = [] then resolve_symbol g r0 = r0
        else matches (resolve_symbol g r0) = Candidates (find_matching_instruments g s) \<and>
          (case find_matching_instruments g s of
             [c] \<Rightarrow> parameters (resolve_symbol g r0) =
                      AList.update ''instrument_token'' (token c)
                            (AList.update ''symbol'' (symbol c) (parameters r0))
           | _ \<Rightarrow> parameters (resolve_symbol g r0) = parameters r0
                  \<and> map_of (parameters (resolve_symbol g r0)) ''symbol'' = Some (PStr s)
                  \<and> map_of (parameters (resolve_symbol g r0)) ''instrument_token'' = None)"
    using assms(3) token
    by (simp add: resolve_symbol_def get_default_def truthy_def find_matching_instruments_of_def
        Let_def split: list.splits)
  with run show ?thesis by simp
qed

lemma py_int_50: "py_int ''50'' = Inr 50"
  by (simp add: py_int_def is_digit_def digit_value_def int_max_str_digits_def)

lemma group_simps:
  "group [a] (Suc 0) = Inr (group_value a)"
  "group [a, b] (Suc 0) = Inr (group_value a)"
  "group [a, b] 2 = Inr (group_value b)"
  by (simp_all add: group_def)

lemma group_value_simps:
  "group_value None = PNone" "group_value (Some s) = PStr s"
  by (simp_all add: group_value_def)

lemma extract_moving_averages_default:
  assumes "valid_datetime now" and "unix_epoch \<le> now"
  shows "extract_parameters g now ''moving_averages'' [None, Some s] r =
           Inr (r\<lparr>parameters := [(''symbol'', PStr (py_strip s)), (''period'', PInt 50),
                                  (''from_date'', PDate (now - 50 * us_per_day))]\<rparr>)"
  using calculate_date_range_days [OF assms, of 50]
  by (simp add: extract_parameters_def group_simps group_value_simps truthy_def strip_of_def
      int_of_def py_int_50)

lemma extract_single_symbol:
  "extract_parameters g now ''rsi_analysis'' [Some s] r =
     Inr (r\<lparr>parameters := [(''symbol'', PStr (py_strip s)), (''period'', PInt 14),
                            (''duration'', PInt 30), (''unit'', PStr ''day'')]\<rparr>)"
  "extract_parameters g now ''support_resistance'' [Some s] r =
     Inr (r\<lparr>parameters := [(''symbol'', PStr (py_strip s)), (''duration'', PInt 90),
                            (''unit'', PStr ''day'')]\<rparr>)"
  "extract_parameters g now ''volume_analysis'' [Some s] r =
     Inr (r\<lparr>parameters := [(''symbol'', PStr (py_strip s)), (''duration'', PInt 30),
                            (''unit'', PStr ''day'')]\<rparr>)"
  "extract_parameters g now ''sector_performance'' [Some s] r =
     Inr (r\<lparr>parameters := [(''sector'', PStr (py_strip s)), (''duration'', PInt 30),
                            (''unit'', PStr ''day'')]\<rparr>)"
  by (simp_all add: extract_parameters_def group_simps group_value_simps strip_of_def)

lemma extract_comparison:
  "extract_parameters g now ''comparison'' [Some s1, Some s2] r =
     Inr (r\<lparr>parameters := [(''symbol1'', PStr (py_strip s1)), (''symbol2'', PStr (py_strip s2)),
                            (''duration'', PInt 30), (''unit'', PStr ''day'')],
             matches := CandidatePair (find_matching_instruments g s1)
                          (find_matching_instruments g s2)\<rparr>)"
  by (simp add: extract_parameters_def groups_def group_value_simps unpack2_def strip_of_def
      find_matching_instruments_of_def)

lemma extract_simple:
  assumes "valid_datetime now" and "unix_epoch \<le> now" and "qt \<in> set simple_intents"
  shows "extract_parameters g now qt [c] r =
           Inr (r\<lparr>parameters :=
                  [(''symbol'', case c of Some s \<Rightarrow> if s = [] then PNone else PStr (py_strip s)
                                  | None \<Rightarrow> PNone),
                   (''duration'', PInt 30), (''unit'', PStr ''day''),
                   (''from_date'', PDate (now - 30 * us_per_day))]\<rparr>)"
proof -
  have basic: "extract_basic_parameters now [c] qt =
      Inr [(''symbol'', case c of Some s \<Rightarrow> if s = [] then PNone else PStr (py_strip s)
                                  | None \<Rightarrow> PNone),
           (''duration'', PInt 30), (''unit'', PStr ''day''),
           (''from_date'', PDate (now - 30 * us_per_day))]"
    using calculate_date_range_days [OF assms(1,2), of 30] assms(3)
    by (auto simp: extract_basic_parameters_def simple_intents_def group_simps group_value_simps
        truthy_def strip_of_def split: option.splits)
  show ?thesis
    using assms(3) by (auto simp: extract_parameters_def simple_intents_def basic)
qed

lemma process_prompt_parameters:
  assumes "first_match search prompt patterns = Some (qt, m)"
    and "extract_parameters g now qt m (committed prompt qt) = Inr (r0\<lparr>parameters := ps\<rparr>)"
  shows "\<exists>r. process_prompt search g now prompt = Parsed r
           \<and> map_of (parameters r) ''period'' = map_of ps ''period''
           \<and> map_of (parameters r) ''duration'' = map_of ps ''duration''
           \<and> map_of (parameters r) ''unit'' = map_of ps ''unit''
           \<and> map_of (parameters r) ''from_date'' = map_of ps ''from_date''"
  by (simp add: process_prompt_unfold assms resolve_symbol_other_keys)

lemma process_prompt_parameters_pair:
  assumes "first_match search prompt patterns = Some (qt, m)"
    and "extract_parameters g now qt m (committed prompt qt) =
           Inr (r0\<lparr>parameters := ps, matches := ms\<rparr>)"
  shows "\<exists>r. process_prompt search g now prompt = Parsed r
           \<and> map_of (parameters r) ''period'' = map_of ps ''period''
           \<and> map_of (parameters r) ''duration'' = map_of ps ''duration''
           \<and> map_of (parameters r) ''unit'' = map_of ps ''unit''
           \<and> map_of (parameters r) ''from_date'' = map_of ps ''from_date''"
  by (simp add: process_prompt_unfold assms resolve_symbol_other_keys)

text \<open>
  Claim C5. With a clock that reads a datetime not before 1970, the defaults of the
  committed rule are in the parameters returned: a moving average without a period has
  period 50; an RSI analysis has period 14 and 30 days; support and resistance has 90
  days; a comparison, a sector performance, a volume analysis and the simple symbol
  queries have 30 days.
\<close>

theorem process_prompt_defaults:
  assumes "first_match search prompt patterns = Some (qt, m)"
    and "valid_datetime now" and "unix_epoch \<le> now"
  shows "(qt = ''moving_averages'' \<and> m = [None, Some s] \<longrightarrow>
            (\<exists>r. process_prompt search g now prompt = Parsed r
                 \<and> map_of (parameters r) ''period'' = Some (PInt 50)))
       \<and> (qt = ''rsi_analysis'' \<and> m = [Some s] \<longrightarrow>
            (\<exists>r. process_prompt search g now prompt = Parsed r
                 \<and> map_of (parameters r) ''period'' = Some (PInt 14)
                 \<and> map_of (parameters r) ''duration'' = Some (PInt 30)
                 \<and> map_of (parameters r) ''unit'' = Some (PStr ''day'')))
       \<and> (qt = ''support_resistance'' \<and> m = [Some s] \<longrightarrow>
            (\<exists>r. process_prompt search g now prompt = Parsed r
                 \<and> map_of (parameters r) ''duration'' = Some (PInt 90)
                 \<and> map_of (parameters r) ''unit'' = Some (PStr ''day'')))
       \<and> (qt = ''comparison'' \<and> m = [Some s, Some s'] \<longrightarrow>
            (\<exists>r. process_prompt search g now prompt = Parsed r
                 \<and> map_of (parameters r) ''duration'' = Some (PInt 30)
                 \<and> map_of (parameters r) ''unit'' = Some (PStr ''day'')))
       \<and> (qt \<in> {''sector_performance'', ''volume_analysis''} \<and> m = [Some s] \<longrightarrow>
            (\<exists>r. process_prompt search g now prompt = Parsed r
                 \<and> map_of (parameters r) ''duration'' = Some (PInt 30)
                 \<and> map_of (parameters r) ''unit'' = Some (PStr ''day'')))
       \<and> (qt \<in> set simple_intents \<and> m = [c] \<longrightarrow>
            (\<exists>r. process_prompt search g now prompt = Parsed r
                 \<and> map_of (parameters r) ''duration'' = Some (PInt 30)
                 \<and> map_of (parameters r) ''unit'' = Some (PStr ''day'')
                 \<and> map_of (parameters r) ''from_date'' = Some (PDate (now - 30 * us_per_day))))"
proof (intro conjI impI)
  assume "qt = ''moving_averages'' \<and> m = [None, Some s]"
  with extract_moving_averages_default [OF assms(2,3), of g s "committed prompt qt"]
  have "extract_parameters g now qt m (committed prompt qt) =
      Inr ((committed prompt qt)\<lparr>parameters :=
             [(''symbol'', PStr (py_strip s)), (''period'', PInt 50),
              (''from_date'', PDate (now - 50 * us_per_day))]\<rparr>)"
    by simp
  from process_prompt_parameters [OF assms(1) this]
  show "\<exists>r. process_prompt search g now prompt = Parsed r
           \<and> map_of (parameters r) ''period'' = Some (PInt 50)"
    by auto
next
  assume "qt = ''rsi_analysis'' \<and> m = [Some s]"
  with extract_single_symbol(1) [of g now s "committed prompt qt"]
  have "extract_parameters g now qt m (committed prompt qt) =
      Inr ((committed prompt qt)\<lparr>parameters :=
             [(''symbol'', PStr (py_strip s)), (''period'', PInt 14),
              (''duration'', PInt 30), (''unit'', PStr ''day'')]\<rparr>)"
    by simp
  from process_prompt_parameters [OF assms(1) this]
  show "\<exists>r. process_prompt search g now prompt = Parsed r
           \<and> map_of (parameters r) ''period'' = Some (PInt 14)
           \<and> map_of (parameters r) ''duration'' = Some (PInt 30)
           \<and> map_of (parameters r) ''unit'' = Some (PStr ''day'')"
    by auto
next
  assume "qt = ''support_resistance'' \<and> m = [Some s]"
  with extract_single_symbol(2) [of g now s "committed prompt qt"]
  have "extract_parameters g now qt m (committed prompt qt) =
      Inr ((committed prompt qt)\<lparr>parameters :=
             [(''symbol'', PStr (py_strip s)), (''duration'', PInt 90),
              (''unit'', PStr ''day'')]\<rparr>)"
    by simp
  from process_prompt_parameters [OF assms(1) this]
  show "\<exists>r. process_prompt search g now prompt = Parsed r
           \<and> map_of (parameters r) ''duration'' = Some (PInt 90)
           \<and> map_of (parameters r) ''unit'' = Some (PStr ''day'')"
    by auto
next
  assume "qt = ''comparison'' \<and> m = [Some s, Some s']"
  with extract_comparison [of g now s s' "committed prompt qt"]
  have "extract_parameters g now qt m (committed prompt qt) =
      Inr ((committed prompt qt)\<lparr>parameters :=
             [(''symbol1'', PStr (py_strip s)), (''symbol2'', PStr (py_strip s')),
              (''duration'', PInt 30), (''unit'', PStr ''day'')],
           matches := CandidatePair (find_matching_instruments g s)
                        (find_matching_instruments g s')\<rparr>)"
    by simp
  from process_prompt_parameters_pair [OF assms(1) this]
  show "\<exists>r. process_prompt search g now prompt = Parsed r
           \<and> map_of (parameters r) ''duration'' = Some (PInt 30)
           \<and> map_of (parameters r) ''unit'' = Some (PStr ''day'')"
    by auto
next
  assume a: "qt \<in> {''sector_performance'', ''volume_analysis''} \<and> m = [Some s]"
  then consider (sector) "qt = ''sector_performance''" | (volume) "qt = ''volume_analysis''"
    by blast
  then show "\<exists>r. process_prompt search g now prompt = Parsed r
           \<and> map_of (parameters r) ''duration'' = Some (PInt 30)
           \<and> map_of (parameters r) ''unit'' = Some (PStr ''day'')"
  proof cases
    case sector
    with a extract_single_symbol(4) [of g now s "committed prompt qt"]
    have "extract_parameters g now qt m (committed prompt qt) =
        Inr ((committed prompt qt)\<lparr>parameters :=
               [(''sector'', PStr (py_strip s)), (''duration'', PInt 30),
                (''unit'', PStr ''day'')]\<rparr>)"
      by simp
    from process_prompt_parameters [OF assms(1) this] show ?thesis by auto
  next
    case volume
    with a extract_single_symbol(3) [of g now s "committed prompt qt"]
    have "extract_parameters g now qt m (committed prompt qt) =
        Inr ((committed prompt qt)\<lparr>parameters :=
               [(''symbol'', PStr (py_strip s)), (''duration'', PInt 30),
                (''unit'', PStr ''day'')]\<rparr>)"
      by simp
    from process_prompt_parameters [OF assms(1) this] show ?thesis by auto
  qed
next
  assume a: "qt \<in> set simple_intents \<and> m = [c]"
  with extract_simple [OF assms(2,3), of qt g c "committed prompt qt"]
  have "extract_parameters g now qt m (committed prompt qt) =
           Inr ((committed prompt qt)\<lparr>parameters :=
                  [(''symbol'', case c of Some s \<Rightarrow> if s = [] then PNone else PStr (py_strip s)
                                  | None \<Rightarrow> PNone),
                   (''duration'', PInt 30), (''unit'', PStr ''day''),
                   (''from_date'', PDate (now - 30 * us_per_day))]\<rparr>)"
    by simp
  from process_prompt_parameters [OF assms(1) this]
  show "\<exists>r. process_prompt search g now prompt = Parsed r
           \<and> map_of (parameters r) ''duration'' = Some (PInt 30)
           \<and> map_of (parameters r) ''unit'' = Some (PStr ''day'')
           \<and> map_of (parameters r) ''from_date'' = Some (PDate (now - 30 * us_per_day))"
    by auto
qed

subsection \<open>The intent matcher on example prompts\<close>

lemma example_clock: "valid_datetime example_now" "unix_epoch \<le> example_now"
  by (simp_all add: valid_datetime_def example_now_def unix_epoch_def max_ordinal_def us_per_day_def)

lemma first_match_moving_average:
  "first_match re_search ''Show 200 day moving average for Infosys'' patterns =
     Some (''moving_averages'', [Some ''200'', Some ''Infosys''])"
  by code_simp

lemma first_match_moving_average_default:
  "first_match re_search ''Show moving average for Infosys'' patterns =
     Some (''moving_averages'', [None, Some ''Infosys''])"
  by code_simp

lemma first_match_rsi:
  "first_match re_search ''Calculate RSI analysis for Wipro'' patterns =
     Some (''rsi_analysis'', [Some ''Wipro''])"
  by code_simp

lemma first_match_historical:
  "first_match re_search ''get 3000 year data of TCS'' patterns =
     Some (''historical'', [Some ''3000'', Some ''year'', Some ''TCS''])"
  by code_simp

lemma find_infosys:
  "find_matching_instruments (Inr example_directory) ''Infosys'' =
     [\<lparr>symbol = PStr ''INFY'', name = PStr ''Infosys Limited'', exchange = PStr ''NSE'',
       instrument_type = PStr ''EQ'', token = PInt 408065\<rparr>]"
  by code_simp

lemma find_without_directory: "find_matching_instruments (Inl AttributeError) s = []"
  by (simp add: find_matching_instruments_def)

lemma extract_moving_average_example:
  "extract_parameters g example_now ''moving_averages'' [Some ''200'', Some ''Infosys'']
     (committed ''Show 200 day moving average for Infosys'' ''moving_averages'') =
   Inr \<lparr>action = Some ''get_moving_averages'',
        parameters = [(''symbol'', PStr ''Infosys''), (''period'', PInt 200),
                      (''from_date'', PDate 63912024000000000)],
        matches = Candidates [], query_type = Some ''moving_averages'',
        original_prompt = ''Show 200 day moving average for Infosys''\<rparr>"
  by code_simp

text \<open>
  A request for a price movement: \<^verbatim>\<open>_extract_basic_parameters\<close> unpacks the groups of
  this pattern (symbol, duration, unit) as duration, unit, symbol, and \<^verbatim>\<open>int\<close> of the
  symbol raises ValueError.
\<close>

lemma price_movement_example:
  "first_match re_search ''Analyze the price movement of TCS over the last 30 days'' patterns =
     Some (''price_movement'', [Some ''TCS'', Some ''30'', Some ''day''])
   \<and> extract_parameters (Inr example_directory) example_now ''price_movement''
         [Some ''TCS'', Some ''30'', Some ''day'']
         (committed ''Analyze the price movement of TCS over the last 30 days'' ''price_movement'') =
       Inl ValueError"
  by code_simp

theorem process_prompt_first_match_wins_witness:
  "process_prompt re_search (Inr example_directory) example_now
      ''Show 200 day moving average for Infosys'' =
   Parsed \<lparr>action = Some ''get_moving_averages'',
           parameters = [(''symbol'', PStr ''INFY''), (''period'', PInt 200),
                         (''from_date'', PDate 63912024000000000),
                         (''instrument_token'', PInt 408065)],
           matches = Candidates
             [\<lparr>symbol = PStr ''INFY'', name = PStr ''Infosys Limited'', exchange = PStr ''NSE'',
               instrument_type = PStr ''EQ'', token = PInt 408065\<rparr>],
           query_type = Some ''moving_averages'',
           original_prompt = ''Show 200 day moving average for Infosys''\<rparr>"
proof -
  have split: "patterns =
      take 10 patterns @ (''moving_averages'', snd (patterns ! 10)) # drop 11 patterns"
    by (simp add: patterns_def)
  have none: "\<forall>(qt', p') \<in> set (take 10 patterns).
      re_search p' ''Show 200 day moving average for Infosys'' = None"
    by code_simp
  have hit: "re_search (snd (patterns ! 10)) ''Show 200 day moving average for Infosys'' =
      Some [Some ''200'', Some ''Infosys'']"
    by code_simp
  from process_prompt_first_match_wins [where pre = "take 10 patterns"
      and post = "drop 11 patterns" and search = re_search and g = "Inr example_directory"
      and now = example_now, OF split none hit]
  have "process_prompt re_search (Inr example_directory) example_now
      ''Show 200 day moving average for Infosys'' =
     (case extract_parameters (Inr example_directory) example_now ''moving_averages''
             [Some ''200'', Some ''Infosys'']
             (committed ''Show 200 day moving average for Infosys'' ''moving_averages'') of
        Inl e \<Rightarrow> PromptError e ''Show 200 day moving average for Infosys''
      | Inr r \<Rightarrow> Parsed (resolve_symbol (Inr example_directory) r))"
    by blast
  then show ?thesis
    by (simp add: extract_moving_average_example resolve_symbol_def get_default_def truthy_def
        find_matching_instruments_of_def find_infosys)
qed

text \<open>
  The claim as stated fails where the extraction of the committed rule raises: the
  first rule matches a request for 3000 years of data, and the result has no query
  type, since the date range is out of the range of \<^verbatim>\<open>datetime\<close>.
\<close>

theorem process_prompt_first_match_counterexample:
  "first_match re_search ''get 3000 year data of TCS'' patterns =
     Some (''historical'', [Some ''3000'', Some ''year'', Some ''TCS''])
   \<and> process_prompt re_search (Inr example_directory) example_now ''get 3000 year data of TCS'' =
       PromptError OverflowError ''get 3000 year data of TCS''
   \<and> returned_query_type
        (process_prompt re_search (Inr example_directory) example_now ''get 3000 year data of TCS'') =
       None"
proof -
  have "extract_parameters (Inr example_directory) example_now ''historical''
          [Some ''3000'', Some ''year'', Some ''TCS'']
          (committed ''get 3000 year data of TCS'' ''historical'') = Inl OverflowError"
    by code_simp
  then have "process_prompt re_search (Inr example_directory) example_now
      ''get 3000 year data of TCS'' = PromptError OverflowError ''get 3000 year data of TCS''"
    by (simp add: process_prompt_unfold first_match_historical)
  then show ?thesis
    by (simp add: first_match_historical returned_query_type_def)
qed

theorem process_prompt_resolution_witness:
  "(\<exists>r. process_prompt re_search (Inr example_directory) example_now
           ''Show 200 day moving average for Infosys'' = Parsed r
        \<and> matches r = Candidates
             [\<lparr>symbol = PStr ''INFY'', name = PStr ''Infosys Limited'', exchange = PStr ''NSE'',
               instrument_type = PStr ''EQ'', token = PInt 408065\<rparr>]
        \<and> parameters r = [(''symbol'', PStr ''INFY''), (''period'', PInt 200),
                          (''from_date'', PDate 63912024000000000),
                          (''instrument_token'', PInt 408065)])
   \<and> (\<exists>r. process_prompt re_search (Inl AttributeError) example_now
           ''Show 200 day moving average for Infosys'' = Parsed r
        \<and> matches r = Candidates []
        \<and> parameters r = [(''symbol'', PStr ''Infosys''), (''period'', PInt 200),
                          (''from_date'', PDate 63912024000000000)])"
proof -
  have sym: "map_of [(''symbol'', PStr ''Infosys''), (''period'', PInt 200),
                     (''from_date'', PDate 63912024000000000)] ''symbol'' = Some (PStr ''Infosys'')"
    by simp
  from process_prompt_resolution [OF first_match_moving_average
      extract_moving_average_example [of "Inr example_directory"], of "''Infosys''"] sym
  have one: "\<exists>r. process_prompt re_search (Inr example_directory) example_now
           ''Show 200 day moving average for Infosys'' = Parsed r
        \<and> matches r = Candidates
             [\<lparr>symbol = PStr ''INFY'', name = PStr ''Infosys Limited'', exchange = PStr ''NSE'',
               instrument_type = PStr ''EQ'', token = PInt 408065\<rparr>]
        \<and> parameters r = [(''symbol'', PStr ''INFY''), (''period'', PInt 200),
                          (''from_date'', PDate 63912024000000000),
                          (''instrument_token'', PInt 408065)]"
    by (simp add: find_infosys)
  from process_prompt_resolution [OF first_match_moving_average
      extract_moving_average_example [of "Inl AttributeError"], of "''Infosys''"] sym
  have none: "\<exists>r. process_prompt re_search (Inl AttributeError) example_now
           ''Show 200 day moving average for Infosys'' = Parsed r
        \<and> matches r = Candidates []
        \<and> parameters r = [(''symbol'', PStr ''Infosys''), (''period'', PInt 200),
                          (''from_date'', PDate 63912024000000000)]"
    by (auto simp: find_without_directory)
  from one none show ?thesis by blast
qed

theorem process_prompt_defaults_witness:
  "(\<exists>r. process_prompt re_search (Inr example_directory) example_now
           ''Show moving average for Infosys'' = Parsed r
        \<and> map_of (parameters r) ''period'' = Some (PInt 50))
   \<and> (\<exists>r. process_prompt re_search (Inr example_directory) example_now
           ''Calculate RSI analysis for Wipro'' = Parsed r
        \<and> map_of (parameters r) ''period'' = Some (PInt 14)
        \<and> map_of (parameters r) ''duration'' = Some (PInt 30)
        \<and> map_of (parameters r) ''unit'' = Some (PStr ''day''))"
  using process_prompt_defaults [OF first_match_moving_average_default example_clock,
      of "''Infosys''" "Inr example_directory"]
    process_prompt_defaults [OF first_match_rsi example_clock,
      of "''Wipro''" "Inr example_directory"]
  by simp

section \<open>Results about the instrument directory\<close>

lemma foldl_types_mono:
  "(a::rat) \<le> b \<Longrightarrow> a \<le> foldl (\<lambda>score (short_type, full_type).
                        if P short_type full_type then score + 50 else score) b ts"
  by (induction ts arbitrary: b) (auto split: prod.splits)

lemma foldl_exchanges_mono:
  "(a::rat) \<le> b \<Longrightarrow> a \<le> foldl (\<lambda>score exchange. if Q exchange then score + 50 else score) b es"
  by (induction es arbitrary: b) auto

lemma score_instrument_exact:
  assumes "\<forall>a b. 0 \<le> partial_ratio a b"
    and "name_is_text i"
    and "dict_get i ''trading_symbol'' = PStr query"
  shows "\<exists>sc. score_instrument partial_ratio query i = Inr sc \<and> 100 \<le> sc"
proof -
  obtain n where n: "upper_of (get_default i ''name'' (PStr [])) = Inr n"
    using assms(2)
    by (auto simp: name_is_text_def upper_of_def get_default_def split: option.splits pyval.splits)
  have r: "(0::rat) \<le> of_int (partial_ratio query n) * (1 / 2)"
    using assms(1) by simp
  show ?thesis
    unfolding score_instrument_def Let_def n bind_def
    using r assms(3)
    by (auto intro!: foldl_exchanges_mono foldl_types_mono)
qed

lemma search_loop_scores:
  assumes "search_loop pr st q is found = Inr res"
    and "\<forall>m \<in> set found. 50 < score m \<and> score_instrument pr q (instrument m) = Inr (score m) \<and> instrument m \<in> set all"
    and "set is \<subseteq> set all"
  shows "\<forall>m \<in> set res. 50 < score m \<and> score_instrument pr q (instrument m) = Inr (score m) \<and> instrument m \<in> set all"
  using assms
proof (induction "is" arbitrary: found)
  case Nil
  then show ?case by simp
next
  case (Cons i "is")
  from Cons.prems(1) obtain sc where sc: "score_instrument pr q i = Inr sc"
    by (auto split: sum.splits)
  show ?case
  proof (rule Cons.IH)
    show "search_loop pr st q is (if sc > 50
             then found @ [\<lparr>instrument = i, score = sc,
                             display_text = format_instrument_display st i\<rparr>]
             else found) = Inr res"
      using Cons.prems(1) sc by simp
    show "\<forall>m\<in>set (if 50 < sc then found @ [\<lparr>instrument = i, score = sc, display_text = format_instrument_display st i\<rparr>] else found).
       50 < score m \<and> score_instrument pr q (instrument m) = Inr (score m) \<and> instrument m \<in> set all"
      using Cons.prems(2,3) sc by auto
    show "set is \<subseteq> set all" using Cons.prems(3) by simp
  qed
qed

lemma set_slice_to: "set (slice_to xs n) \<subseteq> set xs"
  by (auto simp: slice_to_def dest: in_set_takeD)


lemma search_loop_total:
  assumes "list_all name_is_text is"
  shows "\<exists>res. search_loop pr st q is found = Inr res"
  using assms
proof (induction "is" arbitrary: found)
  case Nil
  then show ?case by simp
next
  case (Cons i "is")
  from Cons.prems have "name_is_text i" by simp
  then obtain n where n: "upper_of (get_default i ''name'' (PStr [])) = Inr n"
    by (auto simp: name_is_text_def upper_of_def get_default_def split: option.splits pyval.splits)
  obtain sc where sc: "score_instrument pr q i = Inr sc"
    by (simp add: score_instrument_def Let_def n bind_def)
  from Cons.prems have "list_all name_is_text is" by simp
  from Cons.IH [OF this] show ?case by (simp add: sc)
qed

text \<open>
  The scores where every name is text. With a similarity ratio that is never negative:
  an instrument of the directory whose trading symbol is the uppercased and stripped
  query, and whose name is text, is given a score, and the score is at least 100; every
  entry that \<^verbatim>\<open>smart_search\<close> returns is an instrument of the directory with its own
  score, which is above 50; and the search returns when every name is text.
\<close>

theorem smart_search_scores:
  assumes "\<forall>a b. 0 \<le> partial_ratio a b"
  shows "(\<forall>i \<in> set cache.
            name_is_text i \<and> dict_get i ''trading_symbol'' = PStr (py_strip (py_upper query)) \<longrightarrow>
            (\<exists>sc. score_instrument partial_ratio (py_strip (py_upper query)) i = Inr sc \<and> 100 \<le> sc))
       \<and> (\<forall>found. smart_search partial_ratio py_str cache query limit = Inr found \<longrightarrow>
            (\<forall>m \<in> set found.
               instrument m \<in> set cache
               \<and> score_instrument partial_ratio (py_strip (py_upper query)) (instrument m) =
                   Inr (score m)
               \<and> 50 < score m))
       \<and> (list_all name_is_text cache \<longrightarrow>
            (\<exists>found. smart_search partial_ratio py_str cache query limit = Inr found))"
proof (intro conjI allI impI ballI)
  fix i
  assume "name_is_text i \<and> dict_get i ''trading_symbol'' = PStr (py_strip (py_upper query))"
  with score_instrument_exact [OF assms]
  show "\<exists>sc. score_instrument partial_ratio (py_strip (py_upper query)) i = Inr sc \<and> 100 \<le> sc"
    by blast
next
  fix found m
  assume run: "smart_search partial_ratio py_str cache query limit = Inr found"
    and m: "m \<in> set found"
  from run obtain res where
    res: "search_loop partial_ratio py_str (py_strip (py_upper query)) cache [] = Inr res"
    and found: "found = slice_to (sort_key (\<lambda>m. - score m) res) limit"
    by (auto simp: smart_search_def Let_def bind_Inr_iff)
  from m found set_slice_to have "m \<in> set res" by fastforce
  with search_loop_scores [OF res, of cache]
  have "50 < score m
      \<and> score_instrument partial_ratio (py_strip (py_upper query)) (instrument m) = Inr (score m)
      \<and> instrument m \<in> set cache"
    by simp
  then show "instrument m \<in> set cache" 
    and "score_instrument partial_ratio (py_strip (py_upper query)) (instrument m) = Inr (score m)"
    and "50 < score m"
    by simp_all
next
  assume "list_all name_is_text cache"
  from search_loop_total [OF this, of partial_ratio py_str "py_strip (py_upper query)" "[]"]
  show "\<exists>found. smart_search partial_ratio py_str cache query limit = Inr found"
    by (auto simp: smart_search_def Let_def bind_def)
qed

lemma example_ratio_nonneg: "\<forall>a b. 0 \<le> example_ratio a b"
  by (simp add: example_ratio_def)

lemma example_search:
  "(case smart_search example_ratio (\<lambda>v. []) example_cache '' tcs '' 5 of
      Inl e \<Rightarrow> False | Inr found \<Rightarrow> map score found = [190])"
  by code_simp

lemma example_exact:
  "name_is_text (example_cache ! 0)
   \<and> dict_get (example_cache ! 0) ''trading_symbol'' = PStr (py_strip (py_upper '' tcs ''))"
  by code_simp

lemma example_member: "example_cache ! 0 \<in> set example_cache"
  by (simp add: example_cache_def)

theorem smart_search_scores_witness:
  "(\<exists>sc. score_instrument example_ratio (py_strip (py_upper '' tcs '')) (example_cache ! 0) = Inr sc
         \<and> 100 \<le> sc)
   \<and> (\<exists>found. smart_search example_ratio (\<lambda>v. []) example_cache '' tcs '' 5 = Inr found
         \<and> map score found = [190] \<and> list_all (\<lambda>m. 50 < score m) found)"
proof -
  note inst = smart_search_scores [OF example_ratio_nonneg,
      of example_cache "'' tcs ''" "\<lambda>v. []" 5]
  have first: "\<exists>sc. score_instrument example_ratio (py_strip (py_upper '' tcs ''))
      (example_cache ! 0) = Inr sc \<and> 100 \<le> sc"
    using inst [THEN conjunct1, rule_format, OF example_member] example_exact by simp
  from example_search obtain found where
    found: "smart_search example_ratio (\<lambda>v. []) example_cache '' tcs '' 5 = Inr found"
      "map score found = [190]"
    by (auto split: sum.splits)
  have "\<forall>m \<in> set found. 50 < score m"
    using inst [THEN conjunct2, THEN conjunct1, rule_format, OF found(1)] by simp
  hence above: "list_all (\<lambda>m. 50 < score m) found" by (simp add: list_all_iff)
  show ?thesis
  proof (intro conjI)
    show "\<exists>sc. score_instrument example_ratio (py_strip (py_upper '' tcs ''))
        (example_cache ! 0) = Inr sc \<and> 100 \<le> sc"
      by (rule first)
    show "\<exists>found. smart_search example_ratio (\<lambda>v. []) example_cache '' tcs '' 5 = Inr found
         \<and> map score found = [190] \<and> list_all (\<lambda>m. 50 < score m) found"
      using found above by (intro exI [of _ found]) simp
  qed
qed

text \<open>
  A name that is there and is not text: the score raises AttributeError, and so does the
  search of a directory that holds such an instrument, for every query.
\<close>

lemma score_instrument_not_text:
  assumes "\<not> name_is_text i"
  shows "score_instrument partial_ratio query i = Inl AttributeError"
  using assms
  by (auto simp: score_instrument_def Let_def name_is_text_def upper_of_def get_default_def
      split: option.splits pyval.splits)

lemma search_loop_not_text:
  assumes "\<not> list_all name_is_text is"
  shows "search_loop pr st q is found = Inl AttributeError"
  using assms
proof (induction "is" arbitrary: found)
  case Nil
  then show ?case by simp
next
  case (Cons i "is")
  show ?case
  proof (cases "name_is_text i")
    case True
    then obtain n where n: "upper_of (get_default i ''name'' (PStr [])) = Inr n"
      by (auto simp: name_is_text_def upper_of_def get_default_def
          split: option.splits pyval.splits)
    obtain sc where sc: "score_instrument pr q i = Inr sc"
      by (simp add: score_instrument_def Let_def n)
    from True Cons.prems have "\<not> list_all name_is_text is" by simp
    from Cons.IH [OF this] show ?thesis by (simp add: sc)
  next
    case False
    then show ?thesis by (simp add: score_instrument_not_text)
  qed
qed

lemma smart_search_not_text:
  assumes "\<not> list_all name_is_text cache"
  shows "smart_search partial_ratio py_str cache query limit = Inl AttributeError"
  by (simp add: smart_search_def Let_def search_loop_not_text [OF assms])

lemma nameless_instrument:
  "\<not> name_is_text (process_instrument py_str nameless_record)"
  "dict_get (process_instrument py_str nameless_record) ''trading_symbol'' = PStr ''TCS''"
  by (simp_all add: name_is_text_def process_instrument_def nameless_record_def dict_get_def
      get_default_def)

lemma query_tcs: "py_strip (py_upper ''TCS'') = ''TCS''"
  by code_simp

text \<open>
  Claim C4, evaluated on the directory loaded from one record of the master file that
  has no name. The instrument stored has the trading symbol \<^verbatim>\<open>TCS\<close> and the name None.
  For the query \<^verbatim>\<open>TCS\<close> its trading symbol is the uppercased and stripped query, but it
  is given no score: \<^verbatim>\<open>instrument.get('name', '')\<close> finds the key and returns None, not
  the default, \<^verbatim>\<open>upper\<close> raises AttributeError on it, and nothing in \<^verbatim>\<open>smart_search\<close>
  catches it. Where every name is text, \<open>smart_search_scores\<close> gives what the claim says.
\<close>

theorem smart_search_nameless:
  "dict_get (process_instrument py_str nameless_record) ''trading_symbol'' =
     PStr (py_strip (py_upper ''TCS''))
   \<and> score_instrument partial_ratio (py_strip (py_upper ''TCS''))
        (process_instrument py_str nameless_record) = Inl AttributeError
   \<and> smart_search partial_ratio py_str (process_master_data py_str [nameless_record]) ''TCS'' limit =
       Inl AttributeError"
proof -
  have "\<not> list_all name_is_text (process_master_data py_str [nameless_record])"
    by (simp add: process_master_data_def nameless_instrument(1))
  from smart_search_not_text [OF this]
  show ?thesis
    by (simp add: query_tcs nameless_instrument(2)
        score_instrument_not_text [OF nameless_instrument(1)])
qed

text \<open>
  Claim C9. On an empty directory, which is also the directory before any load, every
  lookup returns without raising: the fuzzy search the empty list, the lookups by token
  and by ISIN, the search by trading symbol and the details of an instrument key
  nothing, the selections by type and by exchange the empty list; the candidate search
  of the intent matcher returns the empty list on an empty directory and on one that
  cannot be read.
\<close>

theorem empty_directory_lookups:
  "smart_search partial_ratio py_str [] query limit = Inr []
   \<and> get_instrument_by_token [] tok = None
   \<and> get_instrument_by_isin [] code = None
   \<and> get_instruments_by_type [] ty = []
   \<and> get_instruments_by_exchange [] ex = []
   \<and> search_by_trading_symbol [] seg wanted = None
   \<and> get_instrument_details [] key = Inr None
   \<and> find_matching_instruments (Inr []) query = []
   \<and> find_matching_instruments (Inl e) query = []"
  by (simp add: smart_search_def bind_def slice_to_def get_instrument_by_token_def
      get_instrument_by_isin_def get_instruments_by_type_def get_instruments_by_exchange_def
      search_by_trading_symbol_def get_instrument_details_def find_matching_instruments_def)

section \<open>Results about the analysis dispatcher\<close>

lemma build_methods_raises:
  "build_methods analysis_method_names = Inl (no_attribute ''_analyze_historical_data'')"
  by (simp add: analysis_method_names_def getattr_self_def methods_def)

lemma process_analysis_request_raises:
  "process_analysis_request fetch indicators request w =
     (failure (quoted ''AnalysisProcessor'' @ '' object has no attribute ''
                 @ quoted ''_analyze_historical_data''), w)"
  by (simp add: process_analysis_request_def build_methods_raises no_attribute_def caught_def)

text \<open>
  Claim C6, evaluated on a request with an intent outside the mapping. The result has
  \<^verbatim>\<open>success = False\<close>, and no handler runs and nothing is fetched (the state of the
  fetch is unchanged); but the error is not the text \<^verbatim>\<open>Unsupported analysis type\<close> of
  line 45: building the mapping raises AttributeError at its first entry, since the
  class does not define \<^verbatim>\<open>_analyze_historical_data\<close>, and the handler of line 48 returns
  the text of that exception. By \<open>process_analysis_request_raises\<close> this is the result
  for every request.
\<close>

theorem process_analysis_request_unknown_intent:
  "process_analysis_request failing_fetch no_indicators
     \<lparr>action = Some ''get_news_sentiment'',
      parameters = [(''symbol'', PStr ''TCS''), (''duration'', PInt 30), (''unit'', PStr ''day'')],
      matches = Candidates [], query_type = Some ''news_sentiment'',
      original_prompt = ''get news sentiment for TCS''\<rparr> 0 =
     (\<lparr>success = False,
       error = Some (quoted ''AnalysisProcessor'' @ '' object has no attribute ''
                       @ quoted ''_analyze_historical_data''),
       data = None\<rparr>, 0)
   \<and> unsupported (Some ''news_sentiment'') = ''Unsupported analysis type: news_sentiment''
   \<and> quoted ''AnalysisProcessor'' @ '' object has no attribute '' @ quoted ''_analyze_historical_data''
       \<noteq> unsupported (Some ''news_sentiment'')"
  by (simp add: process_analysis_request_raises failure_def unsupported_def quoted_def)

lemma analyze_single_fetch_failure:
  assumes "map_of ps ''symbol'' = Some s" and "map_of ps ''from_date'' = Some d"
    and "fetch w s d = (f, w1)" and "\<not> success f"
  shows "analyze_single fetch indicators h ps w = (f, w1)"
  using assms by (simp add: analyze_single_def param_def)

lemma analyze_comparison_fetch_failure:
  assumes "map_of ps ''symbol1'' = Some s1" and "map_of ps ''symbol2'' = Some s2"
    and "map_of ps ''from_date'' = Some d"
    and "fetch w s1 d = (f1, w1)" and "fetch w1 s2 d = (f2, w2)"
    and "\<not> success f1 \<or> \<not> success f2"
  shows "analyze_comparison fetch indicators ps w = (failure ''Failed to fetch comparison data'', w2)"
  using assms by (auto simp: analyze_comparison_def param_def)

lemma analyze_sector_no_fetch: "snd (analyze_sector fetch indicators ps w) = w"
  by (simp add: analyze_sector_def get_sector_stocks_def split: sum.splits)

lemma sector_loop_skips:
  assumes "map_of ps ''from_date'' = Some d" and "fetch w (PStr stock) d = (f, w1)"
    and "\<not> success f"
  shows "sector_loop fetch ps (stock # rest) sector_data w = sector_loop fetch ps rest sector_data w1"
  using assms by (simp add: param_def)

text \<open>
  Claim C7, as amended. On a failed fetch each of the seven handlers of one symbol
  returns the failure of the fetch itself, whatever the indicators would compute; the
  comparison handler returns a failure of its own, with the text
  \<^verbatim>\<open>Failed to fetch comparison data\<close>, when either of its two fetches fails; the sector
  handler fetches nothing, its list of stocks being empty, and the loop it runs over a
  list of stocks skips a fetch that failed: it goes on with the stocks that remain and
  the data collected so far.
\<close>

theorem handlers_on_fetch_failure:
  "(h \<in> set single_symbol_handlers \<and> map_of ps ''symbol'' = Some s
      \<and> map_of ps ''from_date'' = Some d \<and> fetch w s d = (f, w1) \<and> \<not> success f
      \<longrightarrow> run_handler fetch indicators h ps w = (f, w1))
   \<and> (map_of ps ''symbol1'' = Some s1 \<and> map_of ps ''symbol2'' = Some s2
      \<and> map_of ps ''from_date'' = Some d \<and> fetch w s1 d = (f1, w1) \<and> fetch w1 s2 d = (f2, w2)
      \<and> (\<not> success f1 \<or> \<not> success f2)
      \<longrightarrow> run_handler fetch indicators AnalyzeComparison ps w =
            (failure ''Failed to fetch comparison data'', w2))
   \<and> snd (run_handler fetch indicators AnalyzeSector ps w) = w
   \<and> (map_of ps ''from_date'' = Some d \<and> fetch w (PStr stock) d = (f, w1) \<and> \<not> success f
      \<longrightarrow> sector_loop fetch ps (stock # rest) sector_data w =
            sector_loop fetch ps rest sector_data w1)"
proof (intro conjI impI)
  assume a: "h \<in> set single_symbol_handlers \<and> map_of ps ''symbol'' = Some s
      \<and> map_of ps ''from_date'' = Some d \<and> fetch w s d = (f, w1) \<and> \<not> success f"
  then have "run_handler fetch indicators h ps w = analyze_single fetch indicators h ps w"
    by (auto simp: run_handler_def single_symbol_handlers_def)
  with a show "run_handler fetch indicators h ps w = (f, w1)"
    by (simp add: analyze_single_fetch_failure)
next
  assume "map_of ps ''symbol1'' = Some s1 \<and> map_of ps ''symbol2'' = Some s2
      \<and> map_of ps ''from_date'' = Some d \<and> fetch w s1 d = (f1, w1) \<and> fetch w1 s2 d = (f2, w2)
      \<and> (\<not> success f1 \<or> \<not> success f2)"
  then show "run_handler fetch indicators AnalyzeComparison ps w =
            (failure ''Failed to fetch comparison data'', w2)"
    using analyze_comparison_fetch_failure [of ps s1 s2 d fetch w f1 w1 f2 w2 indicators]
    by (simp add: run_handler_def)
next
  show "snd (run_handler fetch indicators AnalyzeSector ps w) = w"
    by (simp add: run_handler_def analyze_sector_no_fetch)
next
  assume failed: "map_of ps ''from_date'' = Some d \<and> fetch w (PStr stock) d = (f, w1) \<and> \<not> success f"
  show "sector_loop fetch ps (stock # rest) sector_data w =
            sector_loop fetch ps rest sector_data w1"
    by (rule sector_loop_skips [where d = d and f = f]) (simp_all add: failed)
qed

theorem handlers_on_fetch_failure_witness:
  "run_handler failing_fetch no_indicators AnalyzeRsi
     [(''symbol'', PStr ''TCS''), (''from_date'', PDate example_now)] 0 = (failure ''timeout'', 1)
   \<and> run_handler failing_fetch no_indicators AnalyzeComparison
       [(''symbol1'', PStr ''HDFC''), (''symbol2'', PStr ''ICICI''), (''from_date'', PDate example_now)] 0 =
       (failure ''Failed to fetch comparison data'', 2)
   \<and> sector_loop failing_fetch [(''from_date'', PDate example_now)] [''TCS'', ''INFY''] [] 0 =
       sector_loop failing_fetch [(''from_date'', PDate example_now)] [''INFY''] [] 1"
  using handlers_on_fetch_failure [where h = AnalyzeRsi
      and ps = "[(''symbol'', PStr ''TCS''), (''from_date'', PDate example_now)]"
      and s = "PStr ''TCS''" and d = "PDate example_now" and fetch = failing_fetch and w = 0
      and f = "failure ''timeout''" and ?w1.0 = 1 and indicators = no_indicators]
    handlers_on_fetch_failure [where
      ps = "[(''symbol1'', PStr ''HDFC''), (''symbol2'', PStr ''ICICI''), (''from_date'', PDate example_now)]"
      and d = "PDate example_now" and fetch = failing_fetch and w = 0 and ?w1.0 = 1
      and indicators = no_indicators and ?s1.0 = "PStr ''HDFC''" and ?s2.0 = "PStr ''ICICI''"
      and ?f1.0 = "failure ''timeout''" and ?f2.0 = "failure ''timeout''" and ?w2.0 = 2]
    handlers_on_fetch_failure [where ps = "[(''from_date'', PDate example_now)]"
      and d = "PDate example_now" and fetch = failing_fetch and w = 0 and ?w1.0 = 1
      and f = "failure ''timeout''" and stock = "''TCS''" and rest = "[''INFY'']"
      and sector_data = "[]" and indicators = no_indicators]
  by (simp add: single_symbol_handlers_def failing_fetch_def failure_def)

text \<open>
  The claim as stated fails for the comparison handler: the fetch fails with the text
  \<^verbatim>\<open>timeout\<close> and the handler returns another text.
\<close>

theorem handlers_on_fetch_failure_counterexample:
  "failing_fetch 0 (PStr ''HDFC'') (PDate example_now) = (failure ''timeout'', 1)
   \<and> fst (run_handler failing_fetch no_indicators AnalyzeComparison
       [(''symbol1'', PStr ''HDFC''), (''symbol2'', PStr ''ICICI''), (''from_date'', PDate example_now)] 0)
      = failure ''Failed to fetch comparison data''
   \<and> (failure ''Failed to fetch comparison data'' :: unit result) \<noteq> failure ''timeout''"
  by (simp add: run_handler_def analyze_comparison_def param_def failing_fetch_def failure_def)

section \<open>Results about support and resistance\<close>

lemma tolist_sorted: "tolist (slice_first n (sorted_py l)) = Inl AttributeError"
  by (simp add: tolist_def slice_first_def sorted_py_def)

lemma find_support_resistance_empty:
  "find_support_resistance bars window = \<lparr>support = [], resistance = []\<rparr>"
  by (simp add: find_support_resistance_def levels_found_def Let_def tolist_sorted bind_def)

text \<open>
  Claim C8, evaluated on a series with one peak (15) and one trough (8). The levels
  computed before the dictionary is built are those the claim describes, but they are
  lists of Python, \<^verbatim>\<open>tolist\<close> raises AttributeError on them and the function returns two
  empty lists. By \<open>find_support_resistance_empty\<close> it does so for every series.
\<close>

theorem find_support_resistance_peak:
  "find_support_resistance peak_series 20 = \<lparr>support = [], resistance = []\<rparr>
   \<and> specified_levels peak_series 20 = \<lparr>support = [8], resistance = [15]\<rparr>"
proof -
  have "specified_levels peak_series 20 = \<lparr>support = [8], resistance = [15]\<rparr>"
    by code_simp
  then show ?thesis by (simp add: find_support_resistance_empty)
qed

end
